theory Spec2Isabelle
  imports Complex_Main
begin

section \<open>Notebook values and the Python operations the report generator applies to them\<close>

text \<open>
  \<^verbatim>\<open>report_generator.py\<close> reads a notebook with \<^verbatim>\<open>nbformat.read\<close> and walks
  the resulting tree of dictionaries, lists and strings with \<^verbatim>\<open>.get\<close>,
  \<^verbatim>\<open>''.join\<close>, \<^verbatim>\<open>in\<close> and f-strings. The tree is modelled as it is in
  memory: a JSON value. A dictionary is an association list whose first entry for a key
  is the entry of the dictionary. Every Python operation that raises on a value of the
  wrong shape returns the exception as a value.
\<close>

datatype json =
    JNull
  | JBool bool
  | JInt int
  | JStr string
  | JList "json list"
  | JObj "(string \<times> json) list"

datatype error =
    AttributeError
  | TypeError
  | KeyError
  | EngineError

text \<open>\<^verbatim>\<open>d.get(k, default)\<close>; a value that is no dictionary has no \<^verbatim>\<open>get\<close>.\<close>

fun py_get :: "json \<Rightarrow> string \<Rightarrow> json \<Rightarrow> error + json" where
  "py_get (JObj kvs) k d = Inr (case map_of kvs k of None \<Rightarrow> d | Some v \<Rightarrow> v)"
| "py_get _ k d = Inl AttributeError"

text \<open>
  Iteration (\<^verbatim>\<open>for x in v\<close>, and what \<^verbatim>\<open>str.join\<close> does to its argument): a
  list yields its elements, a string its characters as one-character strings, a dictionary
  its keys; anything else is not iterable.
\<close>

fun py_iter :: "json \<Rightarrow> error + json list" where
  "py_iter (JList xs) = Inr xs"
| "py_iter (JStr s) = Inr (map (\<lambda>c. JStr [c]) s)"
| "py_iter (JObj kvs) = Inr (map (\<lambda>kv. JStr (fst kv)) kvs)"
| "py_iter _ = Inl TypeError"

fun str_items :: "json list \<Rightarrow> string list option" where
  "str_items [] = Some []"
| "str_items (JStr s # xs) = map_option ((#) s) (str_items xs)"
| "str_items (_ # xs) = None"

fun join :: "string \<Rightarrow> string list \<Rightarrow> string" where
  "join sep [] = []"
| "join sep [x] = x"
| "join sep (x # y # ys) = x @ sep @ join sep (y # ys)"

text \<open>\<^verbatim>\<open>sep.join(v)\<close>: every item of the iteration has to be a string.\<close>

definition py_join :: "string \<Rightarrow> json \<Rightarrow> error + string" where
  "py_join sep v =
     (case py_iter v of
        Inl e \<Rightarrow> Inl e
      | Inr xs \<Rightarrow> (case str_items xs of None \<Rightarrow> Inl TypeError | Some ss \<Rightarrow> Inr (join sep ss)))"

text \<open>Truthiness, as \<^verbatim>\<open>if format_type:\<close> tests it.\<close>

fun py_truthy :: "json \<Rightarrow> bool" where
  "py_truthy JNull = False"
| "py_truthy (JBool b) = b"
| "py_truthy (JInt i) = (i \<noteq> 0)"
| "py_truthy (JStr s) = (s \<noteq> [])"
| "py_truthy (JList xs) = (xs \<noteq> [])"
| "py_truthy (JObj kvs) = (kvs \<noteq> [])"

fun contains_str :: "string \<Rightarrow> string \<Rightarrow> bool" where
  "contains_str k [] = (k = [])"
| "contains_str k (c # cs) = (take (length k) (c # cs) = k \<or> contains_str k cs)"

text \<open>
  \<^verbatim>\<open>k in v\<close> for a string \<open>k\<close>: key membership in a dictionary, element membership in a
  list, substring test in a string, \<^verbatim>\<open>TypeError\<close> otherwise.
\<close>

fun py_contains :: "string \<Rightarrow> json \<Rightarrow> error + bool" where
  "py_contains k (JObj kvs) = Inr (map_of kvs k \<noteq> None)"
| "py_contains k (JList xs) = Inr (JStr k \<in> set xs)"
| "py_contains k (JStr s) = Inr (contains_str k s)"
| "py_contains k _ = Inl TypeError"

text \<open>\<^verbatim>\<open>v[k]\<close> for a string \<open>k\<close>.\<close>

fun py_subscript :: "json \<Rightarrow> string \<Rightarrow> error + json" where
  "py_subscript (JObj kvs) k = (case map_of kvs k of None \<Rightarrow> Inl KeyError | Some v \<Rightarrow> Inr v)"
| "py_subscript _ k = Inl TypeError"

text \<open>\<^verbatim>\<open>len(v)\<close>.\<close>

fun py_len :: "json \<Rightarrow> error + nat" where
  "py_len (JList xs) = Inr (length xs)"
| "py_len (JStr s) = Inr (length s)"
| "py_len (JObj kvs) = Inr (length kvs)"
| "py_len _ = Inl TypeError"

text \<open>Decimal rendering of a natural number, as an f-string formats \<^verbatim>\<open>cell_number\<close>.\<close>

definition digit :: "nat \<Rightarrow> char" where
  "digit n = ''0123456789'' ! (n mod 10)"

function str_nat :: "nat \<Rightarrow> string" where
  "str_nat n = (if n < 10 then [digit n] else str_nat (n div 10) @ [digit n])"
  by pat_completeness auto
termination
  by (relation "measure id") auto

declare str_nat.simps [simp del]


section \<open>What the program takes from its libraries and from the operating system\<close>

text \<open>
  The libraries are no part of the repository; each of their entry points that the code
  calls is a field of the runtime.

  \<^item> \<open>str_other\<close>: Python's \<^verbatim>\<open>str()\<close> of a value that is not a string (an f-string
    formats a string as itself);
  \<^item> \<open>now\<close>: \<^verbatim>\<open>datetime.now().strftime('%Y-%m-%d %H:%M')\<close>;
  \<^item> \<open>page_w\<close>, \<open>left_margin\<close>: the attributes \<^verbatim>\<open>w\<close> and \<^verbatim>\<open>l_margin\<close> of
    the FPDF object, in exact arithmetic;
  \<^item> \<open>b64decode\<close>: \<^verbatim>\<open>base64.b64decode\<close>, the exception's text or the bytes;
  \<^item> \<open>image_open\<close>: \<^verbatim>\<open>PIL.Image.open\<close> on a file name and the file's
    contents, the exception's text or the image's width and height;
  \<^item> \<open>fpdf_image\<close>: \<^verbatim>\<open>FPDF.image(name, x=x, w=w)\<close> on the file's name and
    contents, the exception's text if it raises;
  \<^item> \<open>preprocess\<close>: \<^verbatim>\<open>ExecutePreprocessor.preprocess(nb, resources)\<close>. Python
    passes the notebook object itself, and the executor works on that object in place. The
    first component is the notebook object as the call leaves it, the second the exception's
    text or the notebook the call returns.
\<close>

record runtime =
  str_other :: "json \<Rightarrow> string"
  now :: string
  page_w :: rat
  left_margin :: rat
  b64decode :: "json \<Rightarrow> string + string"
  image_open :: "string \<Rightarrow> string \<Rightarrow> string + nat \<times> nat"
  fpdf_image :: "string \<Rightarrow> string \<Rightarrow> rat \<Rightarrow> rat \<Rightarrow> string option"
  preprocess :: "json \<Rightarrow> json \<times> (string + json)"

text \<open>\<^verbatim>\<open>f"{v}"\<close>.\<close>

definition py_str :: "runtime \<Rightarrow> json \<Rightarrow> string" where
  "py_str rt v = (case v of JStr s \<Rightarrow> s | _ \<Rightarrow> str_other rt v)"


section \<open>The report object\<close>

text \<open>
  \<^verbatim>\<open>NotebookReportPDF\<close> drives the page engine through its drawing methods. The
  document is the sequence of these calls, in order, with their arguments; the engine's
  text calls are taken to accept every string. Beside the document the state holds what
  the program touches outside it: the temporary files on disk and the names
  \<^verbatim>\<open>NamedTemporaryFile\<close> hands out (\<open>tmp_names st (tmp_next st)\<close> is the next
  one). The diagnostic lines the program prints are no part of the model.
\<close>

datatype call =
    Set_auto_page_break bool nat
  | Add_page
  | Set_font string string nat
  | Set_fill_color nat nat nat
  | Set_text_color nat nat nat
  | Cell nat nat string bool string bool
  | Multi_cell nat nat string bool
  | Ln nat
  | Image string rat rat

record state =
  calls :: "call list"
  files :: "string \<rightharpoonup> string"
  tmp_names :: "nat \<Rightarrow> string"
  tmp_next :: nat

definition emit :: "call list \<Rightarrow> state \<Rightarrow> state" where
  "emit cs st = st\<lparr>calls := calls st @ cs\<rparr>"

text \<open>\<^verbatim>\<open>NotebookReportPDF.__init__\<close>: the calls that write the header.\<close>

definition NotebookReportPDF :: "runtime \<Rightarrow> string \<Rightarrow> string \<Rightarrow> call list" where
  "NotebookReportPDF rt student_name assignment_name =
     [Set_auto_page_break True 15,
      Add_page,
      Set_font ''Arial'' ''B'' 16,
      Cell 0 10 ''Jupyter Notebook Assignment Report'' True ''C'' False,
      Set_font ''Arial'' '''' 12,
      Cell 0 10 (''Student: '' @ student_name) True '''' False,
      Cell 0 10 (''Assignment: '' @ assignment_name) True '''' False,
      Cell 0 10 (''Date: '' @ now rt) True '''' False,
      Ln 10]"

definition add_cell_marker :: "runtime \<Rightarrow> json \<Rightarrow> nat \<Rightarrow> state \<Rightarrow> state" where
  "add_cell_marker rt cell_type cell_number =
     emit [Set_font ''Arial'' ''B'' 12,
           Set_fill_color 220 220 220,
           Cell 0 10 (''Cell '' @ str_nat cell_number @ '' ('' @ py_str rt cell_type @ '')'')
             True '''' True,
           Ln 5]"

definition add_code :: "string \<Rightarrow> state \<Rightarrow> state" where
  "add_code code =
     emit [Set_font ''Courier'' '''' 10,
           Set_fill_color 240 240 240,
           Multi_cell 0 5 code True,
           Ln 5]"

definition add_markdown :: "string \<Rightarrow> state \<Rightarrow> state" where
  "add_markdown text =
     emit [Set_font ''Arial'' ''B'' 12,
           Set_fill_color 245 245 250,
           Multi_cell 0 5 text True,
           Ln 5]"

definition add_raw :: "runtime \<Rightarrow> string \<Rightarrow> json \<Rightarrow> state \<Rightarrow> state" where
  "add_raw rt text format_type =
     emit ([Set_font ''Arial'' ''B'' 10,
            Set_fill_color 255 245 230]
           @ (if py_truthy format_type
              then [Set_font ''Arial'' ''I'' 10,
                    Cell 0 5 (''Format: '' @ py_str rt format_type) True '''' False,
                    Set_font ''Courier'' '''' 10]
              else [])
           @ [Multi_cell 0 5 text True,
              Ln 5])"

definition add_output :: "string \<Rightarrow> state \<Rightarrow> state" where
  "add_output output_text =
     emit [Set_font ''Courier'' '''' 10,
           Multi_cell 0 5 output_text False,
           Ln 5]"

text \<open>The \<^verbatim>\<open>except Exception as e\<close> branch of \<^verbatim>\<open>add_image\<close>.\<close>

definition image_error :: "string \<Rightarrow> state \<Rightarrow> state" where
  "image_error e =
     emit [Set_text_color 255 0 0,
           Multi_cell 0 5 (''Error displaying image: '' @ e) False,
           Set_text_color 0 0 0,
           Ln 5]"

text \<open>
  Lines 75 to 80 of \<^verbatim>\<open>add_image\<close>: the width, the height and the left offset
  computed for an image of \<open>width\<close> by \<open>height\<close> pixels.
\<close>

definition image_geometry :: "runtime \<Rightarrow> nat \<Rightarrow> nat \<Rightarrow> rat \<times> rat \<times> rat" where
  "image_geometry rt width height =
     (let page_width = page_w rt - 2 * left_margin rt;
          img_width = min page_width (of_nat width);
          img_height = (of_nat height * img_width) / of_nat width;
          x = left_margin rt + (page_width - img_width) / 2
      in (img_width, img_height, x))"

text \<open>
  \<^verbatim>\<open>Image.open(temp_filename)\<close> and \<^verbatim>\<open>self.image(temp_filename, ...)\<close> read
  the file of that name from disk.
\<close>

definition open_image :: "runtime \<Rightarrow> string \<Rightarrow> state \<Rightarrow> string + nat \<times> nat" where
  "open_image rt name st =
     (case files st name of
        None \<Rightarrow> Inl ''No such file or directory''
      | Some content \<Rightarrow> image_open rt name content)"

definition place_image :: "runtime \<Rightarrow> string \<Rightarrow> rat \<Rightarrow> rat \<Rightarrow> state \<Rightarrow> string option" where
  "place_image rt name x w st =
     (case files st name of
        None \<Rightarrow> Some ''No such file or directory''
      | Some content \<Rightarrow> fpdf_image rt name content x w)"

text \<open>
  \<^verbatim>\<open>add_image\<close>. The temporary file is created with \<^verbatim>\<open>delete=False\<close>, so
  leaving the \<^verbatim>\<open>with\<close> block closes it and keeps it; only \<^verbatim>\<open>os.unlink\<close>,
  the last statement of the \<^verbatim>\<open>try\<close> block, removes it. A width of zero makes the
  division of line 77 raise \<^verbatim>\<open>ZeroDivisionError\<close>, on integers when the minimum is
  the integer width and on floats when it is the page width.
\<close>

definition add_image :: "runtime \<Rightarrow> json \<Rightarrow> state \<Rightarrow> state" where
  "add_image rt img_data st =
     (let temp_filename = tmp_names st (tmp_next st);
          st1 = st\<lparr>files := (files st)(temp_filename \<mapsto> []), tmp_next := Suc (tmp_next st)\<rparr>
      in case b64decode rt img_data of
           Inl e \<Rightarrow> image_error e st1
         | Inr image_data \<Rightarrow>
             (let st2 = st1\<lparr>files := (files st1)(temp_filename \<mapsto> image_data)\<rparr>
              in case open_image rt temp_filename st2 of
                   Inl e \<Rightarrow> image_error e st2
                 | Inr (width, height) \<Rightarrow>
                     if width = 0
                     then image_error
                            (if 0 < page_w rt - 2 * left_margin rt
                             then ''division by zero'' else ''float division by zero'') st2
                     else (case image_geometry rt width height of
                             (img_width, img_height, x) \<Rightarrow>
                               (case place_image rt temp_filename x img_width st2 of
                                  Some e \<Rightarrow> image_error e st2
                                | None \<Rightarrow>
                                    (let st3 = emit [Image temp_filename x img_width, Ln 5] st2
                                     in st3\<lparr>files := (files st3)(temp_filename := None)\<rparr>)))))"


section \<open>The cell loop of \<^verbatim>\<open>process_notebook\<close>\<close>

text \<open>The \<^verbatim>\<open>stream\<close> branch of the loop over the outputs (line 147).\<close>

definition stream_output :: "runtime \<Rightarrow> json \<Rightarrow> state \<Rightarrow> error + state" where
  "stream_output rt output st =
     (case py_get output ''name'' (JStr ''output'') of
        Inl e \<Rightarrow> Inl e
      | Inr name \<Rightarrow>
          (case py_get output ''text'' (JList []) of
             Inl e \<Rightarrow> Inl e
           | Inr text_field \<Rightarrow>
               (case py_join '''' text_field of
                  Inl e \<Rightarrow> Inl e
                | Inr joined \<Rightarrow> Inr (add_output (py_str rt name @ '': '' @ joined) st))))"

text \<open>
  Lines 150 to 152: the \<^verbatim>\<open>text/plain\<close> payload, joined when it is a list. The page
  engine is handed the payload as it is; \<open>EngineError\<close> stands for what it raises on a
  payload that is no string.
\<close>

definition text_content :: "json \<Rightarrow> error + json" where
  "text_content plain =
     (case plain of
        JList xs \<Rightarrow> (case py_join '''' plain of Inl e \<Rightarrow> Inl e | Inr s \<Rightarrow> Inr (JStr s))
      | _ \<Rightarrow> Inr plain)"

definition display_text :: "json \<Rightarrow> state \<Rightarrow> error + state" where
  "display_text data st =
     (case py_contains ''text/plain'' data of
        Inl e \<Rightarrow> Inl e
      | Inr present \<Rightarrow>
          if present then
            (case py_subscript data ''text/plain'' of
               Inl e \<Rightarrow> Inl e
             | Inr plain \<Rightarrow>
                 (case text_content plain of
                    Inl e \<Rightarrow> Inl e
                  | Inr (JStr s) \<Rightarrow> Inr (add_output s st)
                  | Inr _ \<Rightarrow> Inl EngineError))
          else Inr st)"

text \<open>Lines 153 and 154: the \<^verbatim>\<open>image/png\<close> payload.\<close>

definition display_image :: "runtime \<Rightarrow> json \<Rightarrow> state \<Rightarrow> error + state" where
  "display_image rt data st =
     (case py_contains ''image/png'' data of
        Inl e \<Rightarrow> Inl e
      | Inr present \<Rightarrow>
          if present then
            (case py_subscript data ''image/png'' of
               Inl e \<Rightarrow> Inl e
             | Inr img_data \<Rightarrow> Inr (add_image rt img_data st))
          else Inr st)"

text \<open>The \<^verbatim>\<open>display_data\<close> / \<^verbatim>\<open>execute_result\<close> branch (lines 149 to 154).\<close>

definition display_output :: "runtime \<Rightarrow> json \<Rightarrow> state \<Rightarrow> error + state" where
  "display_output rt output st =
     (case py_get output ''data'' (JObj []) of
        Inl e \<Rightarrow> Inl e
      | Inr data \<Rightarrow>
          (case display_text data st of
             Inl e \<Rightarrow> Inl e
           | Inr st1 \<Rightarrow> display_image rt data st1))"

text \<open>The \<^verbatim>\<open>error\<close> branch (lines 156 to 161).\<close>

definition error_output :: "runtime \<Rightarrow> json \<Rightarrow> state \<Rightarrow> error + state" where
  "error_output rt output st =
     (case py_get output ''ename'' (JStr ''Error'') of
        Inl e \<Rightarrow> Inl e
      | Inr error_name \<Rightarrow>
          (case py_get output ''evalue'' (JStr '''') of
             Inl e \<Rightarrow> Inl e
           | Inr error_value \<Rightarrow>
               (case py_get output ''traceback'' (JList []) of
                  Inl e \<Rightarrow> Inl e
                | Inr tb \<Rightarrow>
                    (case py_join [CHR 10] tb of
                       Inl e \<Rightarrow> Inl e
                     | Inr traceback \<Rightarrow>
                         Inr (emit [Set_text_color 0 0 0]
                               (add_output
                                  (py_str rt error_name @ '': '' @ py_str rt error_value
                                     @ [CHR 10] @ traceback)
                                  (emit [Set_text_color 255 0 0] st)))))))"

text \<open>The body of \<^verbatim>\<open>for output in outputs\<close>.\<close>

definition process_output :: "runtime \<Rightarrow> json \<Rightarrow> state \<Rightarrow> error + state" where
  "process_output rt output st =
     (case py_get output ''output_type'' (JStr '''') of
        Inl e \<Rightarrow> Inl e
      | Inr output_type \<Rightarrow>
          if output_type = JStr ''stream'' then stream_output rt output st
          else if output_type = JStr ''display_data'' \<or> output_type = JStr ''execute_result''
          then display_output rt output st
          else if output_type = JStr ''error'' then error_output rt output st
          else Inr st)"

fun process_outputs :: "runtime \<Rightarrow> json list \<Rightarrow> state \<Rightarrow> error + state" where
  "process_outputs rt [] st = Inr st"
| "process_outputs rt (output # outputs) st =
     (case process_output rt output st of
        Inl e \<Rightarrow> Inl e
      | Inr st' \<Rightarrow> process_outputs rt outputs st')"

text \<open>\<^verbatim>\<open>''.join(cell.get('source', []))\<close>.\<close>

definition cell_source :: "json \<Rightarrow> error + string" where
  "cell_source cell =
     (case py_get cell ''source'' (JList []) of
        Inl e \<Rightarrow> Inl e
      | Inr src \<Rightarrow> py_join '''' src)"

text \<open>The \<^verbatim>\<open>code\<close> branch of the loop over the cells (lines 139 to 161).\<close>

definition code_cell :: "runtime \<Rightarrow> json \<Rightarrow> state \<Rightarrow> error + state" where
  "code_cell rt cell st =
     (case cell_source cell of
        Inl e \<Rightarrow> Inl e
      | Inr source \<Rightarrow>
          (case py_get cell ''outputs'' (JList []) of
             Inl e \<Rightarrow> Inl e
           | Inr outs \<Rightarrow>
               (case py_iter outs of
                  Inl e \<Rightarrow> Inl e
                | Inr outputs \<Rightarrow> process_outputs rt outputs (add_code source st))))"

text \<open>The \<^verbatim>\<open>markdown\<close> branch (lines 164 and 165).\<close>

definition markdown_cell :: "json \<Rightarrow> state \<Rightarrow> error + state" where
  "markdown_cell cell st =
     (case cell_source cell of
        Inl e \<Rightarrow> Inl e
      | Inr markdown_text \<Rightarrow> Inr (add_markdown markdown_text st))"

text \<open>
  Lines 170 to 173: the format of a raw cell, a list joined with a comma and a blank.
\<close>

definition raw_format :: "json \<Rightarrow> error + json" where
  "raw_format cell =
     (case py_get cell ''metadata'' (JObj []) of
        Inl e \<Rightarrow> Inl e
      | Inr metadata \<Rightarrow>
          (case py_get metadata ''format'' (JStr '''') of
             Inl e \<Rightarrow> Inl e
           | Inr format_type \<Rightarrow>
               (case format_type of
                  JList xs \<Rightarrow>
                    (case py_join '', '' format_type of Inl e \<Rightarrow> Inl e | Inr s \<Rightarrow> Inr (JStr s))
                | _ \<Rightarrow> Inr format_type)))"

text \<open>The \<^verbatim>\<open>raw\<close> branch (lines 168 to 174).\<close>

definition raw_cell :: "runtime \<Rightarrow> json \<Rightarrow> state \<Rightarrow> error + state" where
  "raw_cell rt cell st =
     (case cell_source cell of
        Inl e \<Rightarrow> Inl e
      | Inr raw_text \<Rightarrow>
          (case raw_format cell of
             Inl e \<Rightarrow> Inl e
           | Inr format_type \<Rightarrow> Inr (add_raw rt raw_text format_type st)))"

text \<open>The body of \<^verbatim>\<open>for i, cell in enumerate(...)\<close>, with \<open>cell_number = i + 1\<close>.\<close>

definition process_cell :: "runtime \<Rightarrow> nat \<Rightarrow> json \<Rightarrow> state \<Rightarrow> error + state" where
  "process_cell rt cell_number cell st =
     (case py_get cell ''cell_type'' (JStr ''unknown'') of
        Inl e \<Rightarrow> Inl e
      | Inr cell_type \<Rightarrow>
          (let st1 = add_cell_marker rt cell_type cell_number st in
           if cell_type = JStr ''code'' then code_cell rt cell st1
           else if cell_type = JStr ''markdown'' then markdown_cell cell st1
           else if cell_type = JStr ''raw'' then raw_cell rt cell st1
           else Inr st1))"

fun process_cells :: "runtime \<Rightarrow> nat \<Rightarrow> json list \<Rightarrow> state \<Rightarrow> error + state" where
  "process_cells rt i [] st = Inr st"
| "process_cells rt i (cell # cells) st =
     (case process_cell rt (i + 1) cell st of
        Inl e \<Rightarrow> Inl e
      | Inr st' \<Rightarrow> process_cells rt (i + 1) cells st')"

text \<open>
  Lines 127 to 176: a new report object, whose document starts with the header, then the
  cells of \<^verbatim>\<open>nb.get('cells', [])\<close> in order. An exception leaves the function
  without a report.
\<close>

definition render :: "runtime \<Rightarrow> json \<Rightarrow> string \<Rightarrow> string \<Rightarrow> state \<Rightarrow> error + state" where
  "render rt nb student_name assignment_name st =
     (let pdf = st\<lparr>calls := NotebookReportPDF rt student_name assignment_name\<rparr>
      in case py_get nb ''cells'' (JList []) of
           Inl e \<Rightarrow> Inl e
         | Inr cs \<Rightarrow>
             (case py_iter cs of
                Inl e \<Rightarrow> Inl e
              | Inr cells \<Rightarrow> process_cells rt 0 cells pdf))"


section \<open>Execution and fallback\<close>

text \<open>Attribute access on a notebook node (\<^verbatim>\<open>executed_nb.cells\<close>).\<close>

fun py_attr :: "json \<Rightarrow> string \<Rightarrow> error + json" where
  "py_attr (JObj kvs) k = (case map_of kvs k of None \<Rightarrow> Inl AttributeError | Some v \<Rightarrow> Inr v)"
| "py_attr _ k = Inl AttributeError"

text \<open>
  Lines 107 to 125. The \<^verbatim>\<open>try\<close> block calls the executor on the object
  \<^verbatim>\<open>nb\<close>, formats \<^verbatim>\<open>len(executed_nb.cells)\<close> and only then rebinds
  \<^verbatim>\<open>nb\<close> to the returned notebook; an exception anywhere in the block leaves
  \<^verbatim>\<open>nb\<close> bound to the object that was handed to the executor, in the state the
  executor left it in.
\<close>

definition executed_notebook :: "runtime \<Rightarrow> json \<Rightarrow> json" where
  "executed_notebook rt nb =
     (case preprocess rt nb of
        (nb_after, Inl e) \<Rightarrow> nb_after
      | (nb_after, Inr executed_nb) \<Rightarrow>
          (case (case py_attr executed_nb ''cells'' of Inl e \<Rightarrow> Inl e | Inr cs \<Rightarrow> py_len cs) of
             Inl e \<Rightarrow> nb_after
           | Inr n \<Rightarrow> executed_nb))"

text \<open>\<^verbatim>\<open>process_notebook\<close>, from the notebook that \<^verbatim>\<open>nbformat.read\<close> returned.\<close>

definition process_notebook ::
  "runtime \<Rightarrow> json \<Rightarrow> string \<Rightarrow> string \<Rightarrow> state \<Rightarrow> error + state" where
  "process_notebook rt nb student_name assignment_name st =
     render rt (executed_notebook rt nb) student_name assignment_name st"

text \<open>The document of a rendering: the engine calls of the report it returns.\<close>

definition document :: "error + state \<Rightarrow> error + call list" where
  "document r = map_sum id calls r"


section \<open>Reading a document\<close>

text \<open>
  The text colour in force after a sequence of engine calls; the engine starts with black.
\<close>

fun text_color :: "nat \<times> nat \<times> nat \<Rightarrow> call list \<Rightarrow> nat \<times> nat \<times> nat" where
  "text_color c [] = c"
| "text_color c (Set_text_color r g b # cs) = text_color (r, g, b) cs"
| "text_color c (_ # cs) = text_color c cs"

text \<open>
  A section marker is the filled single-line cell of height 10 that
  \<^verbatim>\<open>add_cell_marker\<close> draws; no other method draws a filled \<^verbatim>\<open>cell\<close>.
\<close>

fun marker_label :: "call \<Rightarrow> string option" where
  "marker_label (Cell w h txt newline align fill) =
     (if w = 0 \<and> h = 10 \<and> newline \<and> fill then Some txt else None)"
| "marker_label _ = None"

definition markers :: "call list \<Rightarrow> string list" where
  "markers cs = List.map_filter marker_label cs"

text \<open>The cells a notebook holds, and the type a cell declares.\<close>

definition notebook_cells :: "json \<Rightarrow> json list" where
  "notebook_cells nb =
     (case nb of
        JObj kvs \<Rightarrow> (case map_of kvs ''cells'' of Some (JList cs) \<Rightarrow> cs | _ \<Rightarrow> [])
      | _ \<Rightarrow> [])"

definition declared_type :: "runtime \<Rightarrow> json \<Rightarrow> string" where
  "declared_type rt cell =
     (case cell of
        JObj kvs \<Rightarrow> (case map_of kvs ''cell_type'' of None \<Rightarrow> ''unknown'' | Some t \<Rightarrow> py_str rt t)
      | _ \<Rightarrow> ''unknown'')"


section \<open>Notebooks that conform to the cell and output model\<close>

text \<open>
  A text field is a string or a list of string fragments. Every field may be missing.
  The fields the program only formats or compares (\<^verbatim>\<open>cell_type\<close>,
  \<^verbatim>\<open>output_type\<close>, \<^verbatim>\<open>name\<close>, \<^verbatim>\<open>ename\<close>, \<^verbatim>\<open>evalue\<close>, the
  \<^verbatim>\<open>image/png\<close> payload) are not constrained.
\<close>

definition is_text :: "json \<Rightarrow> bool" where
  "is_text v = (case v of JStr s \<Rightarrow> True | JList xs \<Rightarrow> str_items xs \<noteq> None | _ \<Rightarrow> False)"

definition absent_or :: "(json \<Rightarrow> bool) \<Rightarrow> (string \<times> json) list \<Rightarrow> string \<Rightarrow> bool" where
  "absent_or P kvs k = (case map_of kvs k of None \<Rightarrow> True | Some v \<Rightarrow> P v)"

definition wf_output :: "json \<Rightarrow> bool" where
  "wf_output output =
     (case output of
        JObj kvs \<Rightarrow>
          (case map_of kvs ''output_type'' of
             None \<Rightarrow> True
           | Some t \<Rightarrow>
               if t = JStr ''stream'' then absent_or is_text kvs ''text''
               else if t = JStr ''display_data'' \<or> t = JStr ''execute_result'' then
                 (case map_of kvs ''data'' of
                    None \<Rightarrow> True
                  | Some (JObj d) \<Rightarrow> absent_or is_text d ''text/plain''
                  | Some _ \<Rightarrow> False)
               else if t = JStr ''error'' then absent_or is_text kvs ''traceback''
               else True)
      | _ \<Rightarrow> False)"

definition wf_format :: "json \<Rightarrow> bool" where
  "wf_format v = (case v of JList xs \<Rightarrow> str_items xs \<noteq> None | _ \<Rightarrow> True)"

definition wf_cell :: "json \<Rightarrow> bool" where
  "wf_cell cell =
     (case cell of
        JObj kvs \<Rightarrow>
          (case map_of kvs ''cell_type'' of
             None \<Rightarrow> True
           | Some t \<Rightarrow>
               if t = JStr ''code'' then
                 absent_or is_text kvs ''source'' \<and>
                 (case map_of kvs ''outputs'' of
                    None \<Rightarrow> True
                  | Some (JList outputs) \<Rightarrow> list_all wf_output outputs
                  | Some _ \<Rightarrow> False)
               else if t = JStr ''markdown'' then absent_or is_text kvs ''source''
               else if t = JStr ''raw'' then
                 absent_or is_text kvs ''source'' \<and>
                 (case map_of kvs ''metadata'' of
                    None \<Rightarrow> True
                  | Some (JObj m) \<Rightarrow> absent_or wf_format m ''format''
                  | Some _ \<Rightarrow> False)
               else True)
      | _ \<Rightarrow> False)"

definition wf_notebook :: "json \<Rightarrow> bool" where
  "wf_notebook nb =
     (case nb of
        JObj kvs \<Rightarrow>
          (case map_of kvs ''cells'' of
             None \<Rightarrow> True
           | Some (JList cells) \<Rightarrow> list_all wf_cell cells
           | Some _ \<Rightarrow> False)
      | _ \<Rightarrow> False)"

text \<open>The label of the marker of the cell at position \<open>n\<close>, counted from 1.\<close>

definition cell_label :: "runtime \<Rightarrow> nat \<Rightarrow> json \<Rightarrow> string" where
  "cell_label rt n cell = ''Cell '' @ str_nat n @ '' ('' @ declared_type rt cell @ '')''"


section \<open>A runtime, a state and a notebook to evaluate on\<close>

text \<open>
  The example runtime decodes two payloads, the first four bytes of a PNG file and the
  text \<^verbatim>\<open>hello\<close>; only the first opens as an image, and the error for the second
  names the file, as the imaging library's does.
\<close>

definition example_runtime :: runtime where
  "example_runtime =
     \<lparr>str_other = (\<lambda>v. ''None''),
      now = ''2024-03-01 09:30'',
      page_w = 210,
      left_margin = 10,
      b64decode = (\<lambda>v. if v = JStr ''iVBORw=='' then Inr [CHR 0x89, CHR ''P'', CHR ''N'', CHR ''G'']
                        else if v = JStr ''aGVsbG8='' then Inr ''hello''
                        else Inl ''Incorrect padding''),
      image_open = (\<lambda>name content.
                      if content = [CHR 0x89, CHR ''P'', CHR ''N'', CHR ''G''] then Inr (400, 300)
                      else Inl (''cannot identify image file '' @ name)),
      fpdf_image = (\<lambda>name content x w. None),
      preprocess = (\<lambda>nb. (nb, Inr nb))\<rparr>"

definition example_state :: state where
  "example_state =
     \<lparr>calls = [], files = Map.empty, tmp_names = (\<lambda>n. ''/tmp/tmp'' @ str_nat n @ ''.png''),
      tmp_next = 0\<rparr>"

definition example_notebook :: json where
  "example_notebook =
     JObj [(''cells'',
       JList [JObj [(''cell_type'', JStr ''markdown''), (''source'', JStr ''# Title'')],
              JObj [(''cell_type'', JStr ''code''), (''source'', JList [JStr ''print'', JStr ''(1)'']),
                    (''outputs'', JList [JObj [(''output_type'', JStr ''stream''),
                                               (''name'', JStr ''stdout''),
                                               (''text'', JStr [CHR ''1'', CHR 10])]])],
              JObj [(''source'', JStr ''---'')]])]"


text \<open>
  A code cell with a stream output, a result that carries text and an image, and an error.
\<close>

definition example_code_cell :: json where
  "example_code_cell =
     JObj [(''cell_type'', JStr ''code''),
           (''source'', JStr ''1/0''),
           (''outputs'', JList
              [JObj [(''output_type'', JStr ''stream''),
                     (''name'', JStr ''stdout''), (''text'', JStr ''hi'')],
               JObj [(''output_type'', JStr ''execute_result''),
                     (''data'', JObj [(''text/plain'', JStr ''<Figure>''),
                                      (''image/png'', JStr ''iVBORw=='')])],
               JObj [(''output_type'', JStr ''error''),
                     (''ename'', JStr ''ZeroDivisionError''),
                     (''evalue'', JStr ''division by zero''),
                     (''traceback'', JList (map JStr [''Traceback'', ''1/0'']))]])]"


text \<open>
  A notebook whose only output is an image payload that decodes to bytes that are no image,
  a state in which the operating system hands out other temporary names, and a state with
  a file left on disk and calls left in the report object.
\<close>

definition unreadable_image_notebook :: json where
  "unreadable_image_notebook =
     JObj [(''cells'',
       JList [JObj [(''cell_type'', JStr ''code''),
                    (''source'', JStr ''plot()''),
                    (''outputs'', JList
                       [JObj [(''output_type'', JStr ''display_data''),
                              (''data'', JObj [(''image/png'', JStr ''aGVsbG8='')])]])]])]"

definition other_names_state :: state where
  "other_names_state = example_state\<lparr>tmp_names := (\<lambda>n. ''/tmp/tmpq'' @ str_nat n @ ''.png'')\<rparr>"

definition littered_state :: state where
  "littered_state =
     example_state\<lparr>calls := [Add_page], files := [''/tmp/tmp7.png'' \<mapsto> ''hello'']\<rparr>"

text \<open>
  A notebook of two code cells, the second of which raises, the same notebook as the
  executor leaves it when the second cell has raised (the output of the first cell and the
  error of the second stored in it), and a runtime whose executor does that.
\<close>

definition failing_notebook :: json where
  "failing_notebook =
     JObj [(''cells'',
       JList [JObj [(''cell_type'', JStr ''code''), (''source'', JStr ''print(1)''),
                    (''outputs'', JList [])],
              JObj [(''cell_type'', JStr ''code''), (''source'', JStr ''1/0''),
                    (''outputs'', JList [])]])]"

definition partly_executed_notebook :: json where
  "partly_executed_notebook =
     JObj [(''cells'',
       JList [JObj [(''cell_type'', JStr ''code''), (''source'', JStr ''print(1)''),
                    (''outputs'', JList
                       [JObj [(''output_type'', JStr ''stream''), (''name'', JStr ''stdout''),
                              (''text'', JStr [CHR ''1'', CHR 10])]])],
              JObj [(''cell_type'', JStr ''code''), (''source'', JStr ''1/0''),
                    (''outputs'', JList
                       [JObj [(''output_type'', JStr ''error''),
                              (''ename'', JStr ''ZeroDivisionError''),
                              (''evalue'', JStr ''division by zero''),
                              (''traceback'', JList [JStr ''ZeroDivisionError: division by zero''])]])]])]"

definition in_place_runtime :: runtime where
  "in_place_runtime =
     example_runtime\<lparr>preprocess :=
       (\<lambda>nb. if nb = failing_notebook
             then (partly_executed_notebook, Inl ''An error occurred while executing the following cell'')
             else (nb, Inr nb))\<rparr>"


section \<open>States that differ only in what is on disk\<close>

text \<open>
  Two states agree when they hold the same report calls and hand out the same temporary
  names; the files on disk may differ. Two results agree when both are the same exception
  or both are states that agree.
\<close>

definition agree :: "state \<Rightarrow> state \<Rightarrow> bool" where
  "agree s t = (calls s = calls t \<and> tmp_names s = tmp_names t \<and> tmp_next s = tmp_next t)"

definition agree_result :: "error + state \<Rightarrow> error + state \<Rightarrow> bool" where
  "agree_result r r' =
     (case r of
        Inl e \<Rightarrow> r' = Inl e
      | Inr s \<Rightarrow> (case r' of Inl e' \<Rightarrow> False | Inr t \<Rightarrow> agree s t))"


section \<open>Section markers\<close>

lemma calls_emit [simp]: "calls (emit cs st) = calls st @ cs"
  by (simp add: emit_def)

lemma markers_append [simp]: "markers (xs @ ys) = markers xs @ markers ys"
  by (simp add: markers_def map_filter_def)

lemma markers_Nil [simp]: "markers [] = []"
  by (simp add: markers_def map_filter_def)

lemma markers_Cons [simp]:
  "markers (c # cs) =
     (case marker_label c of None \<Rightarrow> markers cs | Some l \<Rightarrow> l # markers cs)"
  by (simp add: markers_def map_filter_def split: option.splits)

lemma markers_add_image [simp]: "markers (calls (add_image rt v st)) = markers (calls st)"
  by (auto simp: add_image_def image_error_def Let_def split: sum.splits option.splits prod.splits)

lemma markers_add_output [simp]: "markers (calls (add_output t st)) = markers (calls st)"
  by (simp add: add_output_def)

lemma markers_add_code [simp]: "markers (calls (add_code t st)) = markers (calls st)"
  by (simp add: add_code_def)

lemma markers_add_markdown [simp]: "markers (calls (add_markdown t st)) = markers (calls st)"
  by (simp add: add_markdown_def)

lemma markers_add_raw [simp]: "markers (calls (add_raw rt t f st)) = markers (calls st)"
  by (simp add: add_raw_def)

lemma markers_add_cell_marker [simp]:
  "markers (calls (add_cell_marker rt t n st)) =
     markers (calls st) @ [''Cell '' @ str_nat n @ '' ('' @ py_str rt t @ '')'']"
  by (simp add: add_cell_marker_def)

lemma stream_output_markers:
  "stream_output rt output st = Inr st' \<Longrightarrow> markers (calls st') = markers (calls st)"
  by (auto simp: stream_output_def split: sum.splits)

lemma display_text_markers:
  "display_text data st = Inr st' \<Longrightarrow> markers (calls st') = markers (calls st)"
  by (auto simp: display_text_def split: sum.splits if_splits json.splits)

lemma display_image_markers:
  "display_image rt data st = Inr st' \<Longrightarrow> markers (calls st') = markers (calls st)"
  by (auto simp: display_image_def split: sum.splits if_splits)

lemma display_output_markers:
  "display_output rt output st = Inr st' \<Longrightarrow> markers (calls st') = markers (calls st)"
  by (auto simp: display_output_def split: sum.splits
           dest!: display_text_markers display_image_markers)

lemma error_output_markers:
  "error_output rt output st = Inr st' \<Longrightarrow> markers (calls st') = markers (calls st)"
  by (auto simp: error_output_def split: sum.splits)

lemma process_output_markers:
  assumes "process_output rt output st = Inr st'"
  shows "markers (calls st') = markers (calls st)"
proof (cases "py_get output ''output_type'' (JStr '''')")
  case (Inl e)
  with assms show ?thesis by (simp add: process_output_def)
next
  case (Inr t)
  with assms show ?thesis
    by (auto simp: process_output_def split: if_splits
             dest: stream_output_markers display_output_markers error_output_markers)
qed

lemma process_outputs_markers:
  "process_outputs rt outputs st = Inr st' \<Longrightarrow> markers (calls st') = markers (calls st)"
proof (induction outputs arbitrary: st)
  case Nil
  then show ?case by simp
next
  case (Cons out outputs)
  then obtain st1 where 1: "process_output rt out st = Inr st1"
    and 2: "process_outputs rt outputs st1 = Inr st'"
    by (auto split: sum.splits)
  from Cons.IH[OF 2] process_output_markers[OF 1] show ?case by simp
qed

lemma code_cell_markers:
  "code_cell rt cell st = Inr st' \<Longrightarrow> markers (calls st') = markers (calls st)"
  by (auto simp: code_cell_def split: sum.splits dest!: process_outputs_markers)

lemma markdown_cell_markers:
  "markdown_cell cell st = Inr st' \<Longrightarrow> markers (calls st') = markers (calls st)"
  by (auto simp: markdown_cell_def split: sum.splits)

lemma raw_cell_markers:
  "raw_cell rt cell st = Inr st' \<Longrightarrow> markers (calls st') = markers (calls st)"
  by (auto simp: raw_cell_def split: sum.splits)

lemma py_get_declared:
  "py_get cell ''cell_type'' (JStr ''unknown'') = Inr t \<Longrightarrow> py_str rt t = declared_type rt cell"
  by (cases cell) (auto simp: declared_type_def py_str_def split: option.splits)

lemma process_cell_markers:
  assumes a: "process_cell rt n cell st = Inr st'"
  shows "markers (calls st') =
           markers (calls st) @ [''Cell '' @ str_nat n @ '' ('' @ declared_type rt cell @ '')'']"
proof (cases "py_get cell ''cell_type'' (JStr ''unknown'')")
  case (Inl e)
  then show ?thesis using a by (simp add: process_cell_def)
next
  case (Inr t)
  let ?st1 = "add_cell_marker rt t n st"
  have m1: "markers (calls ?st1) =
              markers (calls st) @ [''Cell '' @ str_nat n @ '' ('' @ declared_type rt cell @ '')'']"
    using py_get_declared[OF Inr, of rt] by simp
  have "markers (calls st') = markers (calls ?st1)"
    using a Inr
    by (auto simp: process_cell_def Let_def split: if_splits
             dest: code_cell_markers markdown_cell_markers raw_cell_markers)
  with m1 show ?thesis by simp
qed

lemma process_cells_markers:
  "process_cells rt i cells st = Inr st' \<Longrightarrow>
   markers (calls st') =
     markers (calls st) @ map (\<lambda>k. cell_label rt (i + k + 1) (cells ! k)) [0..<length cells]"
proof (induction cells arbitrary: i st)
  case Nil
  then show ?case by simp
next
  case (Cons cell cells)
  then obtain st1 where 1: "process_cell rt (i + 1) cell st = Inr st1"
    and 2: "process_cells rt (i + 1) cells st1 = Inr st'"
    by (auto split: sum.splits)
  have "map (\<lambda>k. cell_label rt (i + k + 1) ((cell # cells) ! k)) [0..<length (cell # cells)]
        = cell_label rt (i + 1) cell # map (\<lambda>k. cell_label rt (i + 1 + k + 1) (cells ! k)) [0..<length cells]"
    by (simp add: map_upt_Suc del: upt_Suc)
  with Cons.IH[OF 2] process_cell_markers[OF 1] show ?case
    by (simp add: cell_label_def)
qed

lemma str_items_chars: "str_items (map (\<lambda>c. JStr [c]) s) = Some (map (\<lambda>c. [c]) s)"
  by (induction s) auto

lemma is_text_join: "is_text v \<Longrightarrow> \<exists>s. py_join sep v = Inr s"
  by (cases v) (auto simp: is_text_def py_join_def str_items_chars)

lemma py_join_empty_list [simp]: "py_join sep (JList []) = Inr []"
  by (simp add: py_join_def)

lemma absent_or_text_join:
  "absent_or is_text kvs k \<Longrightarrow>
   \<exists>v s. py_get (JObj kvs) k (JList []) = Inr v \<and> py_join sep v = Inr s"
  by (cases "map_of kvs k") (auto simp: absent_or_def dest: is_text_join)

lemma wf_stream_total:
  "absent_or is_text kvs ''text'' \<Longrightarrow> \<exists>st'. stream_output rt (JObj kvs) st = Inr st'"
  using absent_or_text_join[of kvs "''text''" "''''"]
  by (auto simp: stream_output_def)

lemma wf_error_total:
  "absent_or is_text kvs ''traceback'' \<Longrightarrow> \<exists>st'. error_output rt (JObj kvs) st = Inr st'"
  using absent_or_text_join[of kvs "''traceback''" "[CHR 10]"]
  by (auto simp: error_output_def)

lemma is_text_content: "is_text v \<Longrightarrow> \<exists>s. text_content v = Inr (JStr s)"
  by (cases v) (auto simp: text_content_def is_text_def py_join_def)

lemma wf_display_text_total:
  "absent_or is_text d ''text/plain'' \<Longrightarrow> \<exists>st'. display_text (JObj d) st = Inr st'"
  by (cases "map_of d ''text/plain''")
     (auto simp: display_text_def absent_or_def dest!: is_text_content)

lemma display_image_total: "\<exists>st'. display_image rt (JObj d) st = Inr st'"
  by (cases "map_of d ''image/png''") (auto simp: display_image_def)

lemma wf_display_total:
  assumes "case map_of kvs ''data'' of None \<Rightarrow> True
           | Some (JObj d) \<Rightarrow> absent_or is_text d ''text/plain'' | Some _ \<Rightarrow> False"
  shows "\<exists>st'. display_output rt (JObj kvs) st = Inr st'"
proof -
  obtain d where d: "py_get (JObj kvs) ''data'' (JObj []) = Inr (JObj d)"
    and t: "absent_or is_text d ''text/plain''"
    using assms by (auto simp: absent_or_def split: option.splits json.splits)
  from wf_display_text_total[OF t] obtain st1 where "display_text (JObj d) st = Inr st1" by blast
  moreover from display_image_total obtain st2 where "display_image rt (JObj d) st1 = Inr st2"
    by blast
  ultimately show ?thesis using d by (simp add: display_output_def)
qed

lemma wf_output_total:
  assumes "wf_output out"
  shows "\<exists>st'. process_output rt out st = Inr st'"
proof -
  from assms obtain kvs where kvs: "out = JObj kvs"
    by (cases out) (auto simp: wf_output_def)
  show ?thesis
  proof (cases "map_of kvs ''output_type''")
    case None
    then show ?thesis by (simp add: kvs process_output_def)
  next
    case (Some t)
    with assms kvs show ?thesis
      using wf_stream_total[of kvs rt st] wf_error_total[of kvs rt st] wf_display_total[of kvs rt st]
      by (auto simp: process_output_def wf_output_def split: if_splits)
  qed
qed

lemma wf_outputs_total:
  "list_all wf_output outputs \<Longrightarrow> \<exists>st'. process_outputs rt outputs st = Inr st'"
proof (induction outputs arbitrary: st)
  case Nil
  then show ?case by simp
next
  case (Cons out outputs)
  then obtain st1 where "process_output rt out st = Inr st1"
    using wf_output_total[of out rt st] by auto
  with Cons show ?case by auto
qed

lemma wf_source_total:
  "absent_or is_text kvs ''source'' \<Longrightarrow> \<exists>s. cell_source (JObj kvs) = Inr s"
  using absent_or_text_join[of kvs "''source''" "''''"] by (auto simp: cell_source_def)

lemma wf_code_total:
  assumes "absent_or is_text kvs ''source''"
    and "case map_of kvs ''outputs'' of None \<Rightarrow> True
         | Some (JList outputs) \<Rightarrow> list_all wf_output outputs | Some _ \<Rightarrow> False"
  shows "\<exists>st'. code_cell rt (JObj kvs) st = Inr st'"
proof -
  from wf_source_total[OF assms(1)] obtain s where s: "cell_source (JObj kvs) = Inr s" by blast
  from assms(2) obtain outputs where o: "py_get (JObj kvs) ''outputs'' (JList []) = Inr (JList outputs)"
    and w: "list_all wf_output outputs"
    by (auto split: option.splits json.splits)
  from wf_outputs_total[OF w] obtain st' where "process_outputs rt outputs (add_code s st) = Inr st'"
    by blast
  with s o show ?thesis by (simp add: code_cell_def)
qed

lemma wf_markdown_total:
  "absent_or is_text kvs ''source'' \<Longrightarrow> \<exists>st'. markdown_cell (JObj kvs) st = Inr st'"
  by (auto simp: markdown_cell_def dest!: wf_source_total)

lemma wf_format_total:
  assumes "case map_of kvs ''metadata'' of None \<Rightarrow> True
           | Some (JObj m) \<Rightarrow> absent_or wf_format m ''format'' | Some _ \<Rightarrow> False"
  shows "\<exists>f. raw_format (JObj kvs) = Inr f"
proof -
  from assms obtain m where m: "py_get (JObj kvs) ''metadata'' (JObj []) = Inr (JObj m)"
    and w: "absent_or wf_format m ''format''"
    by (auto simp: absent_or_def split: option.splits json.splits)
  obtain f where f: "py_get (JObj m) ''format'' (JStr '''') = Inr f" and wf: "wf_format f"
    using w by (auto simp: absent_or_def wf_format_def split: option.splits)
  have "\<exists>r. (case f of JList xs \<Rightarrow>
                (case py_join '', '' f of Inl e \<Rightarrow> Inl e | Inr s \<Rightarrow> Inr (JStr s))
              | _ \<Rightarrow> Inr f) = Inr r"
    using wf by (cases f) (auto simp: wf_format_def py_join_def)
  with m f show ?thesis by (simp add: raw_format_def)
qed

lemma wf_raw_total:
  assumes "absent_or is_text kvs ''source''"
    and "case map_of kvs ''metadata'' of None \<Rightarrow> True
         | Some (JObj m) \<Rightarrow> absent_or wf_format m ''format'' | Some _ \<Rightarrow> False"
  shows "\<exists>st'. raw_cell rt (JObj kvs) st = Inr st'"
  using wf_source_total[OF assms(1)] wf_format_total[OF assms(2)]
  by (auto simp: raw_cell_def)

lemma wf_cell_total:
  assumes "wf_cell cell"
  shows "\<exists>st'. process_cell rt n cell st = Inr st'"
proof -
  from assms obtain kvs where kvs: "cell = JObj kvs"
    by (cases cell) (auto simp: wf_cell_def)
  show ?thesis
  proof (cases "map_of kvs ''cell_type''")
    case None
    then show ?thesis by (simp add: kvs process_cell_def)
  next
    case (Some t)
    let ?st1 = "add_cell_marker rt t n st"
    from Some assms kvs show ?thesis
      using wf_code_total[of kvs rt ?st1] wf_markdown_total[of kvs ?st1] wf_raw_total[of kvs rt ?st1]
      by (auto simp: process_cell_def wf_cell_def split: if_splits)
  qed
qed

lemma wf_cells_total:
  "list_all wf_cell cells \<Longrightarrow> \<exists>st'. process_cells rt i cells st = Inr st'"
proof (induction cells arbitrary: i st)
  case Nil
  then show ?case by simp
next
  case (Cons cell cells)
  then obtain st1 where "process_cell rt (i + 1) cell st = Inr st1"
    using wf_cell_total[of cell rt "i + 1" st] by auto
  with Cons show ?case by auto
qed

lemma wf_notebook_cells:
  "wf_notebook nb \<Longrightarrow>
   \<exists>cs. py_get nb ''cells'' (JList []) = Inr cs \<and> py_iter cs = Inr (notebook_cells nb)
        \<and> list_all wf_cell (notebook_cells nb)"
  by (cases nb) (auto simp: wf_notebook_def notebook_cells_def split: option.splits json.splits)

lemma markers_header [simp]: "markers (NotebookReportPDF rt s a) = []"
  by (simp add: NotebookReportPDF_def)

lemma wf_render:
  assumes "wf_notebook nb"
  shows "\<exists>st'. render rt nb student assignment st = Inr st' \<and>
           markers (calls st') =
             map (\<lambda>k. cell_label rt (k + 1) (notebook_cells nb ! k)) [0..<length (notebook_cells nb)]"
proof -
  let ?pdf = "st\<lparr>calls := NotebookReportPDF rt student assignment\<rparr>"
  from wf_notebook_cells[OF assms] obtain cs where
    cs: "py_get nb ''cells'' (JList []) = Inr cs" "py_iter cs = Inr (notebook_cells nb)"
    and w: "list_all wf_cell (notebook_cells nb)" by blast
  from wf_cells_total[OF w] obtain st' where
    p: "process_cells rt 0 (notebook_cells nb) ?pdf = Inr st'" by blast
  from process_cells_markers[OF p] cs p show ?thesis
    by (simp add: render_def)
qed

text \<open>
  Claim C4. For a notebook that conforms to the cell and output model, rendering returns a
  report, and the report holds exactly one section marker per cell: the marker at position
  \<open>i\<close> reads \<^verbatim>\<open>Cell {i+1} ({cell_type})\<close>, with \<^verbatim>\<open>unknown\<close> for a cell
  that declares no type. Cells of any type, known or not, get their marker.
\<close>

theorem section_markers:
  assumes "wf_notebook nb"
  shows "\<exists>st'. render rt nb student_name assignment_name st = Inr st' \<and>
           length (markers (calls st')) = length (notebook_cells nb) \<and>
           (\<forall>i < length (notebook_cells nb).
              markers (calls st') ! i =
                ''Cell '' @ str_nat (i + 1) @ '' ('' @ declared_type rt (notebook_cells nb ! i) @ '')'')"
proof -
  from wf_render[OF assms] obtain st' where
    r: "render rt nb student_name assignment_name st = Inr st'"
    and m: "markers (calls st') =
              map (\<lambda>k. cell_label rt (k + 1) (notebook_cells nb ! k)) [0..<length (notebook_cells nb)]"
    by blast
  from m have "length (markers (calls st')) = length (notebook_cells nb)" by simp
  moreover from m have "\<forall>i < length (notebook_cells nb).
      markers (calls st') ! i =
        ''Cell '' @ str_nat (i + 1) @ '' ('' @ declared_type rt (notebook_cells nb ! i) @ '')''"
    by (simp add: cell_label_def)
  ultimately show ?thesis using r by blast
qed

text \<open>The example notebook conforms, and the theorem applies to it.\<close>

lemma wf_example_notebook: "wf_notebook example_notebook"
  by (simp add: example_notebook_def wf_notebook_def wf_cell_def wf_output_def absent_or_def
        is_text_def)

theorem section_markers_witness:
  "wf_notebook example_notebook \<and>
   (\<exists>st'. render example_runtime example_notebook ''Ada'' ''Homework 1'' example_state = Inr st' \<and>
           length (markers (calls st')) = length (notebook_cells example_notebook) \<and>
           (\<forall>i < length (notebook_cells example_notebook).
              markers (calls st') ! i =
                ''Cell '' @ str_nat (i + 1) @ '' (''
                  @ declared_type example_runtime (notebook_cells example_notebook ! i) @ '')''))"
  using section_markers[OF wf_example_notebook, of example_runtime "''Ada''" "''Homework 1''" example_state]
    wf_example_notebook
  by blast


section \<open>Text given as fragments\<close>

lemma join_empty_sep: "join [] ss = concat ss"
  by (induction "[]::string" ss rule: join.induct) auto

lemma py_join_fragments: "py_join [] (JList (map JStr frags)) = Inr (concat frags)"
proof -
  have "str_items (map JStr frags) = Some frags" by (induction frags) auto
  then show ?thesis by (simp add: py_join_def join_empty_sep)
qed

lemma py_join_string: "py_join [] (JStr s) = Inr s"
proof -
  have "concat (map (\<lambda>c. [c]) s) = s" by (induction s) auto
  then show ?thesis by (simp add: py_join_def str_items_chars join_empty_sep)
qed

lemma text_content_fragments:
  "text_content (JList (map JStr frags)) = Inr (JStr (concat frags))"
  by (simp add: text_content_def py_join_fragments)

lemma text_content_string: "text_content (JStr s) = Inr (JStr s)"
  by (simp add: text_content_def)

lemma cell_source_fragments:
  "cell_source (JObj ((''source'', JList (map JStr frags)) # kvs)) =
   cell_source (JObj ((''source'', JStr (concat frags)) # kvs))"
  by (simp add: cell_source_def py_join_fragments py_join_string)

text \<open>
  Claim C6. A text field given as a list of string fragments renders as the single string
  that is their concatenation, in order and with nothing put between them: the
  \<^verbatim>\<open>source\<close> of a cell of any type, the \<^verbatim>\<open>text\<close> of a stream output and the
  \<^verbatim>\<open>text/plain\<close> payload of a displayed result. The other fields of the cell, the
  output and the payload dictionary are arbitrary.
\<close>

theorem fragments_render_as_their_concatenation:
  "process_cell rt n (JObj ((''source'', JList (map JStr frags)) # kvs)) st =
     process_cell rt n (JObj ((''source'', JStr (concat frags)) # kvs)) st \<and>
   process_output rt (JObj ((''text'', JList (map JStr frags)) # okvs)) st =
     process_output rt (JObj ((''text'', JStr (concat frags)) # okvs)) st \<and>
   process_output rt
       (JObj ((''data'', JObj ((''text/plain'', JList (map JStr frags)) # dkvs)) # okvs)) st =
     process_output rt
       (JObj ((''data'', JObj ((''text/plain'', JStr (concat frags)) # dkvs)) # okvs)) st"
proof (intro conjI)
  show "process_cell rt n (JObj ((''source'', JList (map JStr frags)) # kvs)) st =
     process_cell rt n (JObj ((''source'', JStr (concat frags)) # kvs)) st"
    using cell_source_fragments[of frags kvs]
    by (simp add: process_cell_def Let_def code_cell_def markdown_cell_def raw_cell_def raw_format_def cong: sum.case_cong)
  show "process_output rt (JObj ((''text'', JList (map JStr frags)) # okvs)) st =
     process_output rt (JObj ((''text'', JStr (concat frags)) # okvs)) st"
    by (simp add: process_output_def stream_output_def display_output_def error_output_def
          py_join_fragments py_join_string)
  show "process_output rt
       (JObj ((''data'', JObj ((''text/plain'', JList (map JStr frags)) # dkvs)) # okvs)) st =
     process_output rt
       (JObj ((''data'', JObj ((''text/plain'', JStr (concat frags)) # dkvs)) # okvs)) st"
    by (simp add: process_output_def stream_output_def display_output_def error_output_def
          display_text_def display_image_def text_content_fragments text_content_string)
qed

text \<open>The fragments \<^verbatim>\<open>["a", "b", "c"]\<close> and the string \<^verbatim>\<open>"abc"\<close>.\<close>

theorem fragments_render_as_their_concatenation_witness:
  "process_cell example_runtime 1 (JObj [(''source'', JList [JStr ''a'', JStr ''b'', JStr ''c'']), (''cell_type'', JStr ''code'')]) example_state
  = process_cell example_runtime 1 (JObj [(''source'', JStr ''abc''), (''cell_type'', JStr ''code'')]) example_state"
  using fragments_render_as_their_concatenation[of example_runtime 1 "[''a'', ''b'', ''c'']"] by simp


section \<open>Missing fields\<close>

lemma cell_source_missing:
  "map_of kvs ''source'' = None \<Longrightarrow> cell_source (JObj kvs) = Inr []"
  by (simp add: cell_source_def)

lemma cell_source_empty: "cell_source (JObj ((''source'', JStr []) # kvs)) = Inr []"
  by (simp add: cell_source_def py_join_string)

text \<open>
  Claim C8. A cell that is present but incomplete is rendered without an exception. A cell
  with no \<^verbatim>\<open>cell_type\<close> gets the marker of an \<^verbatim>\<open>unknown\<close> cell and nothing
  else; a cell with no \<^verbatim>\<open>source\<close> is rendered as the same cell with the empty text as
  its source; a cell with no \<^verbatim>\<open>outputs\<close> is rendered as the same cell with the empty
  list of outputs; and a cell that lacks \<^verbatim>\<open>source\<close>, \<^verbatim>\<open>outputs\<close> and
  \<^verbatim>\<open>metadata\<close> yields a report state whatever its type.
\<close>

theorem incomplete_cells:
  "(map_of kvs ''cell_type'' = None \<longrightarrow>
      process_cell rt n (JObj kvs) st = Inr (add_cell_marker rt (JStr ''unknown'') n st)) \<and>
   (map_of kvs ''source'' = None \<longrightarrow>
      process_cell rt n (JObj kvs) st =
        process_cell rt n (JObj ((''source'', JStr '''') # kvs)) st) \<and>
   (map_of kvs ''outputs'' = None \<longrightarrow>
      process_cell rt n (JObj kvs) st =
        process_cell rt n (JObj ((''outputs'', JList []) # kvs)) st) \<and>
   (map_of kvs ''source'' = None \<and> map_of kvs ''outputs'' = None \<and>
    map_of kvs ''metadata'' = None \<longrightarrow>
      (\<exists>st'. process_cell rt n (JObj kvs) st = Inr st'))"
proof (intro conjI impI)
  assume "map_of kvs ''cell_type'' = None"
  then show "process_cell rt n (JObj kvs) st = Inr (add_cell_marker rt (JStr ''unknown'') n st)"
    by (simp add: process_cell_def)
next
  assume "map_of kvs ''source'' = None"
  then show "process_cell rt n (JObj kvs) st =
        process_cell rt n (JObj ((''source'', JStr '''') # kvs)) st"
    using cell_source_empty[of kvs]
    by (simp add: process_cell_def Let_def code_cell_def markdown_cell_def raw_cell_def
          raw_format_def cell_source_missing cong: sum.case_cong)
next
  assume "map_of kvs ''outputs'' = None"
  then show "process_cell rt n (JObj kvs) st =
        process_cell rt n (JObj ((''outputs'', JList []) # kvs)) st"
    by (simp add: process_cell_def Let_def code_cell_def markdown_cell_def raw_cell_def
          raw_format_def cell_source_def cong: sum.case_cong)
next
  assume "map_of kvs ''source'' = None \<and> map_of kvs ''outputs'' = None \<and>
    map_of kvs ''metadata'' = None"
  then have "wf_cell (JObj kvs)"
    by (simp add: wf_cell_def absent_or_def split: option.splits)
  then show "\<exists>st'. process_cell rt n (JObj kvs) st = Inr st'"
    by (rule wf_cell_total)
qed

text \<open>The empty cell, and the code cell that has nothing but its type.\<close>

theorem incomplete_cells_witness:
  "process_cell example_runtime 3 (JObj []) example_state =
     Inr (add_cell_marker example_runtime (JStr ''unknown'') 3 example_state) \<and>
   process_cell example_runtime 3 (JObj [(''cell_type'', JStr ''code'')]) example_state =
     process_cell example_runtime 3
       (JObj [(''source'', JStr ''''), (''cell_type'', JStr ''code'')]) example_state \<and>
   process_cell example_runtime 3 (JObj [(''cell_type'', JStr ''code'')]) example_state =
     process_cell example_runtime 3
       (JObj [(''outputs'', JList []), (''cell_type'', JStr ''code'')]) example_state \<and>
   (\<exists>st'. process_cell example_runtime 3 (JObj [(''cell_type'', JStr ''code'')]) example_state
            = Inr st')"
proof -
  have 1: "map_of ([] :: (string \<times> json) list) ''cell_type'' = None" by simp
  have 2: "map_of [(''cell_type'', JStr ''code'')] ''source'' = None"
    "map_of [(''cell_type'', JStr ''code'')] ''outputs'' = None"
    "map_of [(''cell_type'', JStr ''code'')] ''metadata'' = None" by simp_all
  from incomplete_cells[of "[]" example_runtime 3 example_state] 1
    incomplete_cells[of "[(''cell_type'', JStr ''code'')]" example_runtime 3 example_state] 2
  show ?thesis by blast
qed

text \<open>
  Claim C10. An error output with missing fields is rendered with defaults: without
  \<^verbatim>\<open>ename\<close>, \<^verbatim>\<open>evalue\<close> and \<^verbatim>\<open>traceback\<close> the error block has the
  text \<^verbatim>\<open>Error: \<close> followed by a newline, drawn between the switch to red and the
  switch back to black; a missing \<^verbatim>\<open>ename\<close> renders as \<^verbatim>\<open>Error\<close>, a missing
  \<^verbatim>\<open>evalue\<close> as the empty string and a missing \<^verbatim>\<open>traceback\<close> as no lines.
\<close>

theorem error_output_defaults:
  "(map_of kvs ''output_type'' = Some (JStr ''error'') \<and> map_of kvs ''ename'' = None \<and>
    map_of kvs ''evalue'' = None \<and> map_of kvs ''traceback'' = None \<longrightarrow>
      (\<exists>st'. process_output rt (JObj kvs) st = Inr st' \<and>
         calls st' = calls st @
           [Set_text_color 255 0 0,
            Set_font ''Courier'' '''' 10,
            Multi_cell 0 5 (''Error: '' @ [CHR 10]) False,
            Ln 5,
            Set_text_color 0 0 0])) \<and>
   (map_of kvs ''ename'' = None \<longrightarrow>
      process_output rt (JObj kvs) st =
        process_output rt (JObj ((''ename'', JStr ''Error'') # kvs)) st) \<and>
   (map_of kvs ''evalue'' = None \<longrightarrow>
      process_output rt (JObj kvs) st =
        process_output rt (JObj ((''evalue'', JStr '''') # kvs)) st) \<and>
   (map_of kvs ''traceback'' = None \<longrightarrow>
      process_output rt (JObj kvs) st =
        process_output rt (JObj ((''traceback'', JList []) # kvs)) st)"
proof (intro conjI impI)
  assume "map_of kvs ''output_type'' = Some (JStr ''error'') \<and> map_of kvs ''ename'' = None \<and>
    map_of kvs ''evalue'' = None \<and> map_of kvs ''traceback'' = None"
  then show "\<exists>st'. process_output rt (JObj kvs) st = Inr st' \<and>
         calls st' = calls st @
           [Set_text_color 255 0 0,
            Set_font ''Courier'' '''' 10,
            Multi_cell 0 5 (''Error: '' @ [CHR 10]) False,
            Ln 5,
            Set_text_color 0 0 0]"
    by (simp add: process_output_def error_output_def add_output_def py_str_def)
next
  assume "map_of kvs ''ename'' = None"
  then show "process_output rt (JObj kvs) st =
        process_output rt (JObj ((''ename'', JStr ''Error'') # kvs)) st"
    by (simp add: process_output_def error_output_def stream_output_def display_output_def
          cong: sum.case_cong)
next
  assume "map_of kvs ''evalue'' = None"
  then show "process_output rt (JObj kvs) st =
        process_output rt (JObj ((''evalue'', JStr '''') # kvs)) st"
    by (simp add: process_output_def error_output_def stream_output_def display_output_def
          cong: sum.case_cong)
next
  assume "map_of kvs ''traceback'' = None"
  then show "process_output rt (JObj kvs) st =
        process_output rt (JObj ((''traceback'', JList []) # kvs)) st"
    by (simp add: process_output_def error_output_def stream_output_def display_output_def
          cong: sum.case_cong)
qed

text \<open>The error output that has nothing but its type.\<close>

theorem error_output_defaults_witness:
  "(\<exists>st'. process_output example_runtime (JObj [(''output_type'', JStr ''error'')]) example_state
            = Inr st' \<and>
         calls st' = calls example_state @
           [Set_text_color 255 0 0,
            Set_font ''Courier'' '''' 10,
            Multi_cell 0 5 (''Error: '' @ [CHR 10]) False,
            Ln 5,
            Set_text_color 0 0 0]) \<and>
   process_output example_runtime (JObj [(''output_type'', JStr ''error'')]) example_state =
     process_output example_runtime
       (JObj [(''ename'', JStr ''Error''), (''output_type'', JStr ''error'')]) example_state \<and>
   process_output example_runtime (JObj [(''output_type'', JStr ''error'')]) example_state =
     process_output example_runtime
       (JObj [(''evalue'', JStr ''''), (''output_type'', JStr ''error'')]) example_state \<and>
   process_output example_runtime (JObj [(''output_type'', JStr ''error'')]) example_state =
     process_output example_runtime
       (JObj [(''traceback'', JList []), (''output_type'', JStr ''error'')]) example_state"
proof -
  have 1: "map_of [(''output_type'', JStr ''error'')] ''output_type'' = Some (JStr ''error'')"
    "map_of [(''output_type'', JStr ''error'')] ''ename'' = None"
    "map_of [(''output_type'', JStr ''error'')] ''evalue'' = None"
    "map_of [(''output_type'', JStr ''error'')] ''traceback'' = None" by simp_all
  from error_output_defaults[of "[(''output_type'', JStr ''error'')]" example_runtime example_state] 1
  show ?thesis by blast
qed


section \<open>Images\<close>

text \<open>The four ways through \<^verbatim>\<open>add_image\<close>.\<close>

lemma text_color_append: "text_color c (xs @ ys) = text_color (text_color c xs) ys"
  by (induction c xs rule: text_color.induct) auto

lemma calls_image_error:
  "calls (image_error e st) =
     calls st @ [Set_text_color 255 0 0,
                 Multi_cell 0 5 (''Error displaying image: '' @ e) False,
                 Set_text_color 0 0 0,
                 Ln 5]"
  by (simp add: image_error_def)

lemma files_image_error [simp]: "files (image_error e st) = files st"
  by (simp add: image_error_def emit_def)

lemma add_image_decode_failure:
  "b64decode rt v = Inl e \<Longrightarrow>
   add_image rt v st =
     image_error e (st\<lparr>files := (files st)(tmp_names st (tmp_next st) \<mapsto> []),
                        tmp_next := Suc (tmp_next st)\<rparr>)"
  by (simp add: add_image_def Let_def)

lemma add_image_open_failure:
  "b64decode rt v = Inr bytes \<Longrightarrow> image_open rt (tmp_names st (tmp_next st)) bytes = Inl e \<Longrightarrow>
   add_image rt v st =
     image_error e (st\<lparr>tmp_next := Suc (tmp_next st),
                        files := (files st)(tmp_names st (tmp_next st) \<mapsto> bytes)\<rparr>)"
  by (simp add: add_image_def Let_def open_image_def)

lemma add_image_placement_failure:
  "b64decode rt v = Inr bytes \<Longrightarrow>
   image_open rt (tmp_names st (tmp_next st)) bytes = Inr (w, h) \<Longrightarrow> w \<noteq> 0 \<Longrightarrow>
   image_geometry rt w h = (iw, ih, x) \<Longrightarrow>
   fpdf_image rt (tmp_names st (tmp_next st)) bytes x iw = Some e \<Longrightarrow>
   add_image rt v st =
     image_error e (st\<lparr>tmp_next := Suc (tmp_next st),
                        files := (files st)(tmp_names st (tmp_next st) \<mapsto> bytes)\<rparr>)"
  by (simp add: add_image_def Let_def open_image_def place_image_def)

lemma add_image_success:
  "b64decode rt v = Inr bytes \<Longrightarrow>
   image_open rt (tmp_names st (tmp_next st)) bytes = Inr (w, h) \<Longrightarrow> w \<noteq> 0 \<Longrightarrow>
   image_geometry rt w h = (iw, ih, x) \<Longrightarrow>
   fpdf_image rt (tmp_names st (tmp_next st)) bytes x iw = None \<Longrightarrow>
   add_image rt v st =
     st\<lparr>calls := calls st @ [Image (tmp_names st (tmp_next st)) x iw, Ln 5],
        files := (files st)(tmp_names st (tmp_next st) := None),
        tmp_next := Suc (tmp_next st)\<rparr>"
  by (simp add: add_image_def Let_def open_image_def place_image_def emit_def)

lemma image_only_output:
  "process_output rt (JObj [(''output_type'', JStr ''display_data''),
                            (''data'', JObj [(''image/png'', v)])]) st
   = Inr (add_image rt v st)"
  by (simp add: process_output_def display_output_def display_text_def display_image_def)

text \<open>
  Claim C3. When the \<^verbatim>\<open>image/png\<close> payload does not decode, because
  \<^verbatim>\<open>b64decode\<close> raises or because the decoded bytes do not open as an image,
  \<^verbatim>\<open>add_image\<close> raises nothing: it draws one text block that starts with
  \<^verbatim>\<open>Error displaying image:\<close> and carries the exception's text, in red, and sets
  the text colour back to black; whatever the colour was before, it is black afterwards.
  The loop over the outputs goes on with the next output from the state
  \<^verbatim>\<open>add_image\<close> returned.
\<close>

theorem undecodable_image:
  assumes "b64decode rt v = Inl e \<or>
           (\<exists>bytes. b64decode rt v = Inr bytes \<and>
                    image_open rt (tmp_names st (tmp_next st)) bytes = Inl e)"
  shows "calls (add_image rt v st) =
           calls st @ [Set_text_color 255 0 0,
                       Multi_cell 0 5 (''Error displaying image: '' @ e) False,
                       Set_text_color 0 0 0,
                       Ln 5] \<and>
         text_color c (calls (add_image rt v st)) = (0, 0, 0) \<and>
         process_outputs rt
             (JObj [(''output_type'', JStr ''display_data''),
                    (''data'', JObj [(''image/png'', v)])] # outputs) st
           = process_outputs rt outputs (add_image rt v st)"
proof -
  from assms obtain st1 where st1: "add_image rt v st = image_error e st1" "calls st1 = calls st"
    by (auto simp: add_image_decode_failure add_image_open_failure)
  then have 1: "calls (add_image rt v st) =
           calls st @ [Set_text_color 255 0 0,
                       Multi_cell 0 5 (''Error displaying image: '' @ e) False,
                       Set_text_color 0 0 0,
                       Ln 5]"
    by (simp add: calls_image_error)
  then have 2: "text_color c (calls (add_image rt v st)) = (0, 0, 0)"
    by (simp add: text_color_append)
  have 3: "process_outputs rt
             (JObj [(''output_type'', JStr ''display_data''),
                    (''data'', JObj [(''image/png'', v)])] # outputs) st
           = process_outputs rt outputs (add_image rt v st)"
    by (simp add: image_only_output)
  from 1 2 3 show ?thesis by blast
qed

text \<open>A payload that the example runtime's decoder rejects.\<close>

theorem undecodable_image_witness:
  "(b64decode example_runtime (JStr ''not base64'') = Inl ''Incorrect padding'' \<or>
    (\<exists>bytes. b64decode example_runtime (JStr ''not base64'') = Inr bytes \<and>
       image_open example_runtime (tmp_names example_state (tmp_next example_state)) bytes
         = Inl ''Incorrect padding'')) \<and>
   calls (add_image example_runtime (JStr ''not base64'') example_state) =
     calls example_state @ [Set_text_color 255 0 0,
        Multi_cell 0 5 (''Error displaying image: '' @ ''Incorrect padding'') False,
        Set_text_color 0 0 0,
        Ln 5] \<and>
   text_color (255, 0, 0) (calls (add_image example_runtime (JStr ''not base64'') example_state))
     = (0, 0, 0) \<and>
   process_outputs example_runtime
       (JObj [(''output_type'', JStr ''display_data''),
              (''data'', JObj [(''image/png'', JStr ''not base64'')])] # []) example_state
     = process_outputs example_runtime [] (add_image example_runtime (JStr ''not base64'') example_state)"
proof -
  have h: "b64decode example_runtime (JStr ''not base64'') = Inl ''Incorrect padding'' \<or>
    (\<exists>bytes. b64decode example_runtime (JStr ''not base64'') = Inr bytes \<and>
       image_open example_runtime (tmp_names example_state (tmp_next example_state)) bytes
         = Inl ''Incorrect padding'')"
    by (simp add: example_runtime_def)
  from undecodable_image[OF h, of "(255, 0, 0)" "[]"] h show ?thesis by blast
qed

text \<open>
  Claim C1 says that the temporary file is deleted before \<^verbatim>\<open>add_image\<close> returns, on
  the success path and on every failure path. The code deletes it with
  \<^verbatim>\<open>os.unlink\<close> as the last statement of the \<^verbatim>\<open>try\<close> block, under the
  comment \<^verbatim>\<open>Clean up the temporary file\<close>, so an exception skips the deletion. What
  the code does on the failure paths: when \<^verbatim>\<open>b64decode\<close> raises, when the bytes do not
  open as an image, or when the page engine refuses the image, the file that was created is
  still on disk when \<^verbatim>\<open>add_image\<close> returns. Only the success path deletes it.
\<close>

theorem temporary_file_left_on_failure:
  assumes "b64decode rt v = Inl e \<or>
           (\<exists>bytes. b64decode rt v = Inr bytes \<and>
              (image_open rt (tmp_names st (tmp_next st)) bytes = Inl e \<or>
               (\<exists>w h iw ih x.
                  image_open rt (tmp_names st (tmp_next st)) bytes = Inr (w, h) \<and> w \<noteq> 0 \<and>
                  image_geometry rt w h = (iw, ih, x) \<and>
                  fpdf_image rt (tmp_names st (tmp_next st)) bytes x iw = Some e)))"
  shows "files (add_image rt v st) (tmp_names st (tmp_next st)) \<noteq> None"
  using assms
  by (auto simp: add_image_decode_failure add_image_open_failure add_image_placement_failure)

text \<open>
  In the example runtime the payload \<^verbatim>\<open>aGVsbG8=\<close> decodes to \<^verbatim>\<open>hello\<close>, which
  is no image: the file \<^verbatim>\<open>/tmp/tmp0.png\<close> stays.
\<close>

theorem temporary_file_left_on_failure_witness:
  "(b64decode example_runtime (JStr ''aGVsbG8='') = Inl ''cannot identify image file /tmp/tmp0.png'' \<or>
    (\<exists>bytes. b64decode example_runtime (JStr ''aGVsbG8='') = Inr bytes \<and>
       (image_open example_runtime (tmp_names example_state (tmp_next example_state)) bytes
          = Inl ''cannot identify image file /tmp/tmp0.png'' \<or>
        (\<exists>w h iw ih x.
           image_open example_runtime (tmp_names example_state (tmp_next example_state)) bytes
             = Inr (w, h) \<and> w \<noteq> 0 \<and>
           image_geometry example_runtime w h = (iw, ih, x) \<and>
           fpdf_image example_runtime (tmp_names example_state (tmp_next example_state)) bytes x iw
             = Some ''cannot identify image file /tmp/tmp0.png'')))) \<and>
   files (add_image example_runtime (JStr ''aGVsbG8='') example_state)
     (tmp_names example_state (tmp_next example_state)) \<noteq> None"
proof -
  have h: "b64decode example_runtime (JStr ''aGVsbG8='') = Inl ''cannot identify image file /tmp/tmp0.png'' \<or>
    (\<exists>bytes. b64decode example_runtime (JStr ''aGVsbG8='') = Inr bytes \<and>
       (image_open example_runtime (tmp_names example_state (tmp_next example_state)) bytes
          = Inl ''cannot identify image file /tmp/tmp0.png'' \<or>
        (\<exists>w h iw ih x.
           image_open example_runtime (tmp_names example_state (tmp_next example_state)) bytes
             = Inr (w, h) \<and> w \<noteq> 0 \<and>
           image_geometry example_runtime w h = (iw, ih, x) \<and>
           fpdf_image example_runtime (tmp_names example_state (tmp_next example_state)) bytes x iw
             = Some ''cannot identify image file /tmp/tmp0.png'')))"
    by (simp add: example_runtime_def example_state_def str_nat.simps digit_def)
  from temporary_file_left_on_failure[OF h] h show ?thesis by blast
qed

lemma image_geometry_eq:
  "image_geometry rt w h =
     (min (page_w rt - 2 * left_margin rt) (of_nat w),
      (of_nat h * min (page_w rt - 2 * left_margin rt) (of_nat w)) / of_nat w,
      left_margin rt + (page_w rt - 2 * left_margin rt
                         - min (page_w rt - 2 * left_margin rt) (of_nat w)) / 2)"
  by (simp add: image_geometry_def Let_def)




section \<open>The order of the blocks of a code cell\<close>

lemma py_join_newline: "py_join [CHR 10] (JList (map JStr tb)) = Inr (join [CHR 10] tb)"
proof -
  have "str_items (map JStr tb) = Some tb" by (induction tb) auto
  then show ?thesis by (simp add: py_join_def)
qed

lemma py_str_string [simp]: "py_str rt (JStr s) = s"
  by (simp add: py_str_def)

text \<open>
  Claim C5. A code cell whose outputs are a stream, an \<^verbatim>\<open>execute_result\<close> with both
  \<^verbatim>\<open>text/plain\<close> and \<^verbatim>\<open>image/png\<close>, and an error, is drawn in this order: the
  marker, the code block, the output block of the stream (\<^verbatim>\<open>name: text\<close>), the output
  block of the plain text, the image, the error block in red, and the switch back to black,
  after which the text colour is black. The image is one that decodes, opens and is placed.
  An output whose \<^verbatim>\<open>output_type\<close> is none of the four the program knows leaves the
  report as it is.
\<close>

theorem output_order:
  assumes "b64decode rt img = Inr bytes"
    and "image_open rt (tmp_names st (tmp_next st)) bytes = Inr (W, H)"
    and "0 < W"
    and "image_geometry rt W H = (iw, ih, x)"
    and "fpdf_image rt (tmp_names st (tmp_next st)) bytes x iw = None"
    and "cell = JObj [(''cell_type'', JStr ''code''),
                      (''source'', JStr src),
                      (''outputs'', JList
                         [JObj [(''output_type'', JStr ''stream''),
                                (''name'', JStr name), (''text'', JStr txt)],
                          JObj [(''output_type'', JStr ''execute_result''),
                                (''data'', JObj [(''text/plain'', JStr plain),
                                                 (''image/png'', img)])],
                          JObj [(''output_type'', JStr ''error''),
                                (''ename'', JStr ename), (''evalue'', JStr evalue),
                                (''traceback'', JList (map JStr tb))]])]"
  shows "(\<exists>st'. process_cell rt n cell st = Inr st' \<and>
            calls st' = calls st @
              [Set_font ''Arial'' ''B'' 12, Set_fill_color 220 220 220,
               Cell 0 10 (''Cell '' @ str_nat n @ '' (code)'') True '''' True, Ln 5,
               Set_font ''Courier'' '''' 10, Set_fill_color 240 240 240,
               Multi_cell 0 5 src True, Ln 5,
               Set_font ''Courier'' '''' 10,
               Multi_cell 0 5 (name @ '': '' @ txt) False, Ln 5,
               Set_font ''Courier'' '''' 10,
               Multi_cell 0 5 plain False, Ln 5,
               Image (tmp_names st (tmp_next st)) x iw, Ln 5,
               Set_text_color 255 0 0,
               Set_font ''Courier'' '''' 10,
               Multi_cell 0 5 (ename @ '': '' @ evalue @ [CHR 10] @ join [CHR 10] tb) False, Ln 5,
               Set_text_color 0 0 0] \<and>
            text_color c (calls st') = (0, 0, 0)) \<and>
         (\<forall>out t. py_get out ''output_type'' (JStr '''') = Inr t \<and>
              t \<noteq> JStr ''stream'' \<and> t \<noteq> JStr ''display_data'' \<and>
              t \<noteq> JStr ''execute_result'' \<and> t \<noteq> JStr ''error''
            \<longrightarrow> process_output rt out st = Inr st)"
proof -
  from assms(3) have w: "W \<noteq> 0" by simp
  define st2 where
    "st2 = add_output plain (add_output (name @ '': '' @ txt)
             (add_code src (add_cell_marker rt (JStr ''code'') n st)))"
  have names: "tmp_names st2 = tmp_names st" "tmp_next st2 = tmp_next st"
    by (simp_all add: st2_def add_output_def add_code_def add_cell_marker_def emit_def)
  have c2: "calls st2 = calls st @
              [Set_font ''Arial'' ''B'' 12, Set_fill_color 220 220 220,
               Cell 0 10 (''Cell '' @ str_nat n @ '' (code)'') True '''' True, Ln 5,
               Set_font ''Courier'' '''' 10, Set_fill_color 240 240 240,
               Multi_cell 0 5 src True, Ln 5,
               Set_font ''Courier'' '''' 10,
               Multi_cell 0 5 (name @ '': '' @ txt) False, Ln 5,
               Set_font ''Courier'' '''' 10,
               Multi_cell 0 5 plain False, Ln 5]"
    by (simp add: st2_def add_output_def add_code_def add_cell_marker_def)
  have img: "calls (add_image rt img st2) =
               calls st2 @ [Image (tmp_names st (tmp_next st)) x iw, Ln 5]"
  proof -
    have a2: "image_open rt (tmp_names st2 (tmp_next st2)) bytes = Inr (W, H)"
      using assms(2) by (simp only: names)
    have a5: "fpdf_image rt (tmp_names st2 (tmp_next st2)) bytes x iw = None"
      using assms(5) by (simp only: names)
    from add_image_success[OF assms(1) a2 w assms(4) a5] show ?thesis
      by (simp add: names)
  qed
  define st' where
    "st' = emit [Set_text_color 0 0 0]
             (add_output (ename @ '': '' @ evalue @ [CHR 10] @ join [CHR 10] tb)
                (emit [Set_text_color 255 0 0] (add_image rt img st2)))"
  have r: "process_cell rt n cell st = Inr st'"
    by (simp add: st'_def st2_def assms(6) process_cell_def code_cell_def cell_source_def
          py_join_string process_output_def stream_output_def display_output_def
          display_text_def display_image_def text_content_def error_output_def py_join_newline)
  have c: "calls st' = calls (add_image rt img st2) @
             [Set_text_color 255 0 0,
              Set_font ''Courier'' '''' 10,
              Multi_cell 0 5 (ename @ '': '' @ evalue @ [CHR 10] @ join [CHR 10] tb) False, Ln 5,
              Set_text_color 0 0 0]"
    by (simp add: st'_def add_output_def)
  have cs: "calls st' = calls st @
              [Set_font ''Arial'' ''B'' 12, Set_fill_color 220 220 220,
               Cell 0 10 (''Cell '' @ str_nat n @ '' (code)'') True '''' True, Ln 5,
               Set_font ''Courier'' '''' 10, Set_fill_color 240 240 240,
               Multi_cell 0 5 src True, Ln 5,
               Set_font ''Courier'' '''' 10,
               Multi_cell 0 5 (name @ '': '' @ txt) False, Ln 5,
               Set_font ''Courier'' '''' 10,
               Multi_cell 0 5 plain False, Ln 5,
               Image (tmp_names st (tmp_next st)) x iw, Ln 5,
               Set_text_color 255 0 0,
               Set_font ''Courier'' '''' 10,
               Multi_cell 0 5 (ename @ '': '' @ evalue @ [CHR 10] @ join [CHR 10] tb) False, Ln 5,
               Set_text_color 0 0 0]"
    by (simp add: c img c2)
  have tc: "text_color c (calls st') = (0, 0, 0)"
    by (simp add: c text_color_append)
  have 2: "\<forall>out t. py_get out ''output_type'' (JStr '''') = Inr t \<and>
              t \<noteq> JStr ''stream'' \<and> t \<noteq> JStr ''display_data'' \<and>
              t \<noteq> JStr ''execute_result'' \<and> t \<noteq> JStr ''error''
            \<longrightarrow> process_output rt out st = Inr st"
    by (simp add: process_output_def)
  from r cs tc 2 show ?thesis by blast
qed

text \<open>The example cell, and an output of a type the program does not know.\<close>

theorem output_order_witness:
  "b64decode example_runtime (JStr ''iVBORw=='') = Inr [CHR 0x89, CHR ''P'', CHR ''N'', CHR ''G''] \<and>
   image_open example_runtime (tmp_names example_state (tmp_next example_state))
     [CHR 0x89, CHR ''P'', CHR ''N'', CHR ''G''] = Inr (400, 300) \<and>
   (0::nat) < 400 \<and>
   image_geometry example_runtime 400 300 = (190, 285 / 2, 10) \<and>
   (\<exists>st'. process_cell example_runtime 2 example_code_cell example_state = Inr st' \<and>
      calls st' = calls example_state @
        [Set_font ''Arial'' ''B'' 12, Set_fill_color 220 220 220,
         Cell 0 10 (''Cell '' @ str_nat 2 @ '' (code)'') True '''' True, Ln 5,
         Set_font ''Courier'' '''' 10, Set_fill_color 240 240 240,
         Multi_cell 0 5 ''1/0'' True, Ln 5,
         Set_font ''Courier'' '''' 10,
         Multi_cell 0 5 (''stdout'' @ '': '' @ ''hi'') False, Ln 5,
         Set_font ''Courier'' '''' 10,
         Multi_cell 0 5 ''<Figure>'' False, Ln 5,
         Image (tmp_names example_state (tmp_next example_state)) 10 190, Ln 5,
         Set_text_color 255 0 0,
         Set_font ''Courier'' '''' 10,
         Multi_cell 0 5 (''ZeroDivisionError'' @ '': '' @ ''division by zero'' @ [CHR 10]
                          @ join [CHR 10] [''Traceback'', ''1/0'']) False, Ln 5,
         Set_text_color 0 0 0] \<and>
      text_color (0, 0, 0) (calls st') = (0, 0, 0)) \<and>
   process_output example_runtime (JObj [(''output_type'', JStr ''update_display_data'')])
     example_state = Inr example_state"
proof -
  have 1: "b64decode example_runtime (JStr ''iVBORw=='') = Inr [CHR 0x89, CHR ''P'', CHR ''N'', CHR ''G'']"
    by (simp add: example_runtime_def)
  have 2: "image_open example_runtime (tmp_names example_state (tmp_next example_state))
     [CHR 0x89, CHR ''P'', CHR ''N'', CHR ''G''] = Inr (400, 300)"
    by (simp add: example_runtime_def)
  have 3: "(0::nat) < 400" by simp
  have 4: "image_geometry example_runtime 400 300 = (190, 285 / 2, 10)"
    by (simp add: image_geometry_eq example_runtime_def)
  have 5: "fpdf_image example_runtime (tmp_names example_state (tmp_next example_state))
        [CHR 0x89, CHR ''P'', CHR ''N'', CHR ''G''] 10 190 = None"
    by (simp add: example_runtime_def)
  have 6: "py_get (JObj [(''output_type'', JStr ''update_display_data'')]) ''output_type'' (JStr '''')
             = Inr (JStr ''update_display_data'') \<and>
           JStr ''update_display_data'' \<noteq> JStr ''stream'' \<and>
           JStr ''update_display_data'' \<noteq> JStr ''display_data'' \<and>
           JStr ''update_display_data'' \<noteq> JStr ''execute_result'' \<and>
           JStr ''update_display_data'' \<noteq> JStr ''error''"
    by simp
  note order = output_order[OF 1 2 3 4 5 example_code_cell_def, of 2 "(0, 0, 0)"]
  note a = conjunct1[OF order]
  note b = conjunct2[OF order, rule_format, OF 6]
  show ?thesis by (intro conjI; (rule 1 2 3 4 a b)?)
qed


section \<open>Execution and the notebook that is rendered\<close>

text \<open>
  Claim C2 says that after a failed execution the original, unexecuted notebook is rendered,
  never a partly executed one. The comments of the code say the same
  (\<^verbatim>\<open>Continue with the original notebook if execution fails\<close>), but the code keeps no
  copy: \<^verbatim>\<open>nb\<close> is the very object that was handed to the executor, and the executor
  stores each cell's outputs in it as it goes. What the code does: when the executor raises,
  the notebook rendered is that object as the executor left it. No exception of the executor
  leaves \<^verbatim>\<open>process_notebook\<close>: its result is the result of rendering.
\<close>

theorem execution_failure_renders_the_notebook_as_left:
  assumes "preprocess rt nb = (nb_after, Inl e)"
  shows "process_notebook rt nb student_name assignment_name st =
           render rt nb_after student_name assignment_name st"
  using assms by (simp add: process_notebook_def executed_notebook_def)

text \<open>
  With an executor that has stored the output of the first cell and the error of the second
  before it raises, the report differs from the report of the unexecuted notebook.
\<close>

lemma render_partly:
  "document (render in_place_runtime partly_executed_notebook ''Ada'' ''Homework 1'' example_state) \<noteq>
   document (render in_place_runtime failing_notebook ''Ada'' ''Homework 1'' example_state)"
  by (simp add: document_def render_def partly_executed_notebook_def failing_notebook_def
        process_cell_def code_cell_def cell_source_def py_join_string process_output_def
        stream_output_def error_output_def py_join_def py_str_def
        Let_def emit_def add_code_def add_cell_marker_def add_output_def in_place_runtime_def
        example_runtime_def example_state_def NotebookReportPDF_def str_nat.simps digit_def)

theorem execution_failure_renders_the_notebook_as_left_witness:
  "preprocess in_place_runtime failing_notebook =
     (partly_executed_notebook, Inl ''An error occurred while executing the following cell'') \<and>
   process_notebook in_place_runtime failing_notebook ''Ada'' ''Homework 1'' example_state =
     render in_place_runtime partly_executed_notebook ''Ada'' ''Homework 1'' example_state \<and>
   document (process_notebook in_place_runtime failing_notebook ''Ada'' ''Homework 1'' example_state)
     \<noteq> document (render in_place_runtime failing_notebook ''Ada'' ''Homework 1'' example_state)"
proof -
  have 1: "preprocess in_place_runtime failing_notebook =
     (partly_executed_notebook, Inl ''An error occurred while executing the following cell'')"
    by (simp add: in_place_runtime_def)
  note 2 = execution_failure_renders_the_notebook_as_left[OF 1, of "''Ada''" "''Homework 1''" example_state]
  have 3: "document (process_notebook in_place_runtime failing_notebook ''Ada'' ''Homework 1'' example_state)
     \<noteq> document (render in_place_runtime failing_notebook ''Ada'' ''Homework 1'' example_state)"
    by (subst 2) (rule render_partly)
  show ?thesis by (intro conjI; (rule 1 2 3)?)
qed


section \<open>Rendering twice\<close>

lemma agree_result_simps [simp]:
  "agree_result (Inl e) r' = (r' = Inl e)"
  "agree_result (Inr s) (Inr t) = agree s t"
  "agree_result (Inr s) (Inl e) = False"
  by (simp_all add: agree_result_def)

lemma agree_emit: "agree s t \<Longrightarrow> agree (emit cs s) (emit cs t)"
  by (simp add: agree_def emit_def)

lemma agree_add_output: "agree s t \<Longrightarrow> agree (add_output x s) (add_output x t)"
  by (simp add: add_output_def agree_emit)

lemma agree_add_code: "agree s t \<Longrightarrow> agree (add_code x s) (add_code x t)"
  by (simp add: add_code_def agree_emit)

lemma agree_add_markdown: "agree s t \<Longrightarrow> agree (add_markdown x s) (add_markdown x t)"
  by (simp add: add_markdown_def agree_emit)

lemma agree_add_raw: "agree s t \<Longrightarrow> agree (add_raw rt x f s) (add_raw rt x f t)"
  by (simp add: add_raw_def agree_emit)

lemma agree_add_cell_marker:
  "agree s t \<Longrightarrow> agree (add_cell_marker rt c n s) (add_cell_marker rt c n t)"
  by (simp add: add_cell_marker_def agree_emit)

lemma agree_add_image:
  assumes "agree s t"
  shows "agree (add_image rt v s) (add_image rt v t)"
proof -
  from assms have n: "tmp_names t = tmp_names s" "tmp_next t = tmp_next s" "calls t = calls s"
    by (simp_all add: agree_def)
  show ?thesis
    by (simp add: add_image_def Let_def open_image_def place_image_def image_error_def emit_def
          agree_def n split: sum.splits option.splits prod.splits)
qed

lemma agree_stream_output:
  "agree s t \<Longrightarrow> agree_result (stream_output rt out s) (stream_output rt out t)"
  by (simp add: stream_output_def agree_add_output split: sum.splits)

lemma agree_display_text:
  "agree s t \<Longrightarrow> agree_result (display_text data s) (display_text data t)"
  by (simp add: display_text_def agree_add_output split: sum.splits json.splits)

lemma agree_display_image:
  "agree s t \<Longrightarrow> agree_result (display_image rt data s) (display_image rt data t)"
  by (simp add: display_image_def agree_add_image split: sum.splits)

lemma agree_display_output:
  assumes "agree s t"
  shows "agree_result (display_output rt out s) (display_output rt out t)"
proof (cases "py_get out ''data'' (JObj [])")
  case (Inl e)
  then show ?thesis by (simp add: display_output_def)
next
  case (Inr data)
  from agree_display_text[OF assms, of data] agree_display_image[of _ _ rt data] Inr
  show ?thesis
    by (cases "display_text data s"; cases "display_text data t")
       (simp_all add: display_output_def)
qed

lemma agree_error_output:
  "agree s t \<Longrightarrow> agree_result (error_output rt out s) (error_output rt out t)"
  by (simp add: error_output_def agree_add_output agree_emit split: sum.splits)

lemma agree_process_output:
  "agree s t \<Longrightarrow> agree_result (process_output rt out s) (process_output rt out t)"
  by (simp add: process_output_def agree_stream_output agree_display_output agree_error_output
        split: sum.splits)

lemma agree_process_outputs:
  "agree s t \<Longrightarrow> agree_result (process_outputs rt outputs s) (process_outputs rt outputs t)"
proof (induction outputs arbitrary: s t)
  case Nil
  then show ?case by simp
next
  case (Cons out outputs)
  from agree_process_output[OF Cons.prems, of rt out] Cons.IH show ?case
    by (cases "process_output rt out s"; cases "process_output rt out t") simp_all
qed

lemma agree_code_cell:
  "agree s t \<Longrightarrow> agree_result (code_cell rt cell s) (code_cell rt cell t)"
  by (simp add: code_cell_def agree_process_outputs agree_add_code split: sum.splits)

lemma agree_markdown_cell:
  "agree s t \<Longrightarrow> agree_result (markdown_cell cell s) (markdown_cell cell t)"
  by (simp add: markdown_cell_def agree_add_markdown split: sum.splits)

lemma agree_raw_cell:
  "agree s t \<Longrightarrow> agree_result (raw_cell rt cell s) (raw_cell rt cell t)"
  by (simp add: raw_cell_def agree_add_raw split: sum.splits)

lemma agree_process_cell:
  "agree s t \<Longrightarrow> agree_result (process_cell rt n cell s) (process_cell rt n cell t)"
  by (simp add: process_cell_def Let_def agree_code_cell agree_markdown_cell agree_raw_cell
        agree_add_cell_marker split: sum.splits)

lemma agree_process_cells:
  "agree s t \<Longrightarrow> agree_result (process_cells rt i cells s) (process_cells rt i cells t)"
proof (induction cells arbitrary: i s t)
  case Nil
  then show ?case by simp
next
  case (Cons cell cells)
  from agree_process_cell[OF Cons.prems, of rt "i + 1" cell] Cons.IH show ?case
    by (cases "process_cell rt (i + 1) cell s"; cases "process_cell rt (i + 1) cell t") simp_all
qed

lemma agree_document: "agree_result r r' \<Longrightarrow> document r = document r'"
  by (cases r; cases r') (simp_all add: document_def agree_def)

text \<open>
  Claim C9 says that two renderings of a notebook with the same names and the same
  timestamp give the same document. The text of the block drawn for an image that does not
  open is the text of the exception, and the imaging library's exception names the
  temporary file, whose name the operating system chooses anew for every run: with another
  temporary name the document is another.
\<close>

theorem same_timestamp_different_documents:
  "document (render example_runtime unreadable_image_notebook ''Ada'' ''Homework 1'' example_state)
   \<noteq> document (render example_runtime unreadable_image_notebook ''Ada'' ''Homework 1''
                   other_names_state)"
  by (simp add: document_def render_def unreadable_image_notebook_def process_cell_def
        code_cell_def cell_source_def py_join_string process_output_def display_output_def
        display_text_def display_image_def add_image_def Let_def open_image_def image_error_def
        emit_def add_code_def add_cell_marker_def example_runtime_def example_state_def
        other_names_state_def NotebookReportPDF_def str_nat.simps digit_def)

text \<open>
  Claim C9 as amended: two renderings of a notebook with the same names, the same timestamp
  and the same temporary file names handed out give the same document, whatever files are on
  disk and whatever the state of the report object passed in.
\<close>

theorem same_temporary_names_same_document:
  assumes "tmp_names st1 = tmp_names st2" and "tmp_next st1 = tmp_next st2"
  shows "document (render rt nb student_name assignment_name st1) =
         document (render rt nb student_name assignment_name st2)"
proof -
  have "agree (st1\<lparr>calls := NotebookReportPDF rt student_name assignment_name\<rparr>)
              (st2\<lparr>calls := NotebookReportPDF rt student_name assignment_name\<rparr>)"
    using assms by (simp add: agree_def)
  then have "agree_result (render rt nb student_name assignment_name st1)
                          (render rt nb student_name assignment_name st2)"
    by (simp add: render_def agree_process_cells split: sum.splits)
  then show ?thesis by (rule agree_document)
qed

text \<open>The example state and the state with a file left on disk.\<close>

theorem same_temporary_names_same_document_witness:
  "tmp_names example_state = tmp_names littered_state \<and>
   tmp_next example_state = tmp_next littered_state \<and>
   document (render example_runtime unreadable_image_notebook ''Ada'' ''Homework 1'' example_state) =
   document (render example_runtime unreadable_image_notebook ''Ada'' ''Homework 1'' littered_state)"
proof -
  have 1: "tmp_names example_state = tmp_names littered_state"
    by (simp add: littered_state_def)
  have 2: "tmp_next example_state = tmp_next littered_state"
    by (simp add: littered_state_def)
  from same_temporary_names_same_document[OF 1 2] 1 2 show ?thesis by blast
qed

end
